theory Spec2Isabelle
  imports Main "HOL-Library.AList"
begin

section \<open>Python values, exceptions and built-ins\<close>

text \<open>
  The values that \<^verbatim>\<open>json.loads\<close> and \<^verbatim>\<open>yaml.safe_load\<close> return: \<^verbatim>\<open>None\<close>, booleans,
  integers, floats (kept by their printed form, never inspected), strings, lists and
  dictionaries. A dictionary is an association list in insertion order, read with
  \<open>dict_get\<close>. Strings are byte strings in UTF-8.
\<close>

datatype pyval =
    PNone
  | PBool bool
  | PInt int
  | PFloat string
  | PStr string
  | PList "pyval list"
  | PDict "(string \<times> pyval) list"

type_synonym pydict = "(string \<times> pyval) list"

text \<open>
  Exceptions carry their class and the text of \<^verbatim>\<open>str(e)\<close>. \<open>SystemExit\<close> (raised by
  \<^verbatim>\<open>sys.exit\<close>) and \<open>KeyboardInterrupt\<close> derive from \<^verbatim>\<open>BaseException\<close> only, so no
  \<^verbatim>\<open>except Exception\<close> clause catches them. \<open>OtherException\<close> stands for every other
  class below \<^verbatim>\<open>Exception\<close> (\<^verbatim>\<open>OSError\<close>, \<^verbatim>\<open>TypeError\<close>, \<^verbatim>\<open>IndexError\<close>, ...).
\<close>

datatype exc_class =
    Exception
  | ValueError
  | JSONDecodeError
  | UnicodeDecodeError
  | ImportError
  | AttributeError
  | FileNotFoundError
  | YAMLError
  | IndexError
  | OtherException

datatype exn = Exc exc_class string | SystemExit int | KeyboardInterrupt

fun subclass_of :: "exc_class \<Rightarrow> exc_class \<Rightarrow> bool" where
  "subclass_of c Exception = True"
| "subclass_of c ValueError = (c = ValueError \<or> c = JSONDecodeError \<or> c = UnicodeDecodeError)"
| "subclass_of c d = (c = d)"

fun isinstance :: "exn \<Rightarrow> exc_class \<Rightarrow> bool" where
  "isinstance (Exc c m) d = subclass_of c d"
| "isinstance (SystemExit n) d = False"
| "isinstance KeyboardInterrupt d = False"


text \<open>\<^verbatim>\<open>s.find(c)\<close> and \<^verbatim>\<open>s.rfind(c)\<close> for a one-character \<open>c\<close>: the first and the last
  index of \<open>c\<close>, and \<open>-1\<close> when \<open>c\<close> does not occur.\<close>

fun str_find :: "char \<Rightarrow> string \<Rightarrow> int" where
  "str_find c [] = - 1"
| "str_find c (x # xs) =
     (if x = c then 0
      else (let r = str_find c xs in if r = - 1 then - 1 else r + 1))"

fun str_rfind :: "char \<Rightarrow> string \<Rightarrow> int" where
  "str_rfind c [] = - 1"
| "str_rfind c (x # xs) =
     (let r = str_rfind c xs
      in if r \<noteq> - 1 then r + 1 else if x = c then 0 else - 1)"

text \<open>\<^verbatim>\<open>s[a:b]\<close> for non-negative \<open>a\<close> and \<open>b\<close> (the only case the callers reach).\<close>

definition py_slice :: "string \<Rightarrow> int \<Rightarrow> int \<Rightarrow> string" where
  "py_slice s a b = drop (nat a) (take (nat b) s)"

text \<open>\<^verbatim>\<open>d.get(k, default)\<close>.\<close>

definition dict_get :: "pydict \<Rightarrow> string \<Rightarrow> pyval \<Rightarrow> pyval" where
  "dict_get d k dflt = (case map_of d k of Some v \<Rightarrow> v | None \<Rightarrow> dflt)"

text \<open>Decimal formatting of a non-negative integer (\<^verbatim>\<open>f"{n}"\<close>), and the format
  \<^verbatim>\<open>f"{n:03d}"\<close>, which pads with zeros on the left up to three characters.\<close>

definition digit_char :: "nat \<Rightarrow> char" where
  "digit_char d = ''0123456789'' ! d"

fun str_nat :: "nat \<Rightarrow> string" where
  "str_nat n = (if n < 10 then [digit_char n] else str_nat (n div 10) @ [digit_char (n mod 10)])"

definition format_03d :: "nat \<Rightarrow> string" where
  "format_03d n = replicate (3 - length (str_nat n)) (CHR ''0'') @ str_nat n"

definition str_int :: "int \<Rightarrow> string" where
  "str_int n = (if n < 0 then ''-'' @ str_nat (nat (- n)) else str_nat (nat n))"

text \<open>\<^verbatim>\<open>str(e)\<close> of an exception.\<close>

fun exc_str :: "exn \<Rightarrow> string" where
  "exc_str (Exc c m) = m"
| "exc_str (SystemExit n) = str_int n"
| "exc_str KeyboardInterrupt = []"

section \<open>The engines: \<^verbatim>\<open>ai_engines/openai_engine.py\<close> and \<^verbatim>\<open>ai_engines/gemini_engine.py\<close>\<close>

datatype openai_client = OpenAI pyval

datatype generative_model = GenerativeModel pyval

text \<open>The objects the two libraries hand out, named by the arguments of their constructors,
  and the fields \<^verbatim>\<open>self.client\<close> and \<^verbatim>\<open>self.model\<close> of the two engine classes.\<close>

record openai_engine =
  self_client :: openai_client
  self_model :: pyval

record gemini_engine =
  self_gemini_model :: generative_model

subsection \<open>\<^verbatim>\<open>_build_prompt\<close>\<close>

definition openai_build_prompt :: "openai_engine \<Rightarrow> string \<Rightarrow> string" where
  \<open>openai_build_prompt self requirement_text =
     ''\<newline>''
   @ ''Please analyze the following software requirement document and generate comprehensive manual test cases.\<newline>''
   @ ''\<newline>''
   @ ''REQUIREMENT DOCUMENT:\<newline>''
   @ requirement_text @ ''\<newline>''
   @ ''\<newline>''
   @ ''INSTRUCTIONS:\<newline>''
   @ ''1. Identify all features and functionalities described in the requirements\<newline>''
   @ ''2. For each feature, generate relevant test cases\<newline>''
   @ ''3. Include positive, negative, and edge case scenarios\<newline>''
   @ ''4. Format the output as a JSON array where each test case has:\<newline>''
   @ ''   - feature: The feature/functionality being tested\<newline>''
   @ ''   - test_id: A unique identifier (e.g., TC001, TC002, etc.)\<newline>''
   @ ''   - title: A clear, descriptive test case title\<newline>''
   @ ''   - steps: An array of step-by-step instructions\<newline>''
   @ ''   - expected_result: The expected outcome\<newline>''
   @ ''   - priority: Test priority (High, Medium, or Low)\<newline>''
   @ ''\<newline>''
   @ ''EXAMPLE FORMAT:\<newline>''
   @ ''[\<newline>''
   @ ''    {\<newline>''
   @ ''        "feature": "User Login",\<newline>''
   @ ''        "test_id": "TC001",\<newline>''
   @ ''        "title": "Verify successful login with valid credentials",\<newline>''
   @ ''        "steps": [\<newline>''
   @ ''            "Navigate to login page",\<newline>''
   @ ''            "Enter valid username",\<newline>''
   @ ''            "Enter valid password",\<newline>''
   @ ''            "Click Login button"\<newline>''
   @ ''        ],\<newline>''
   @ ''        "expected_result": "User successfully logs in and is redirected to dashboard",\<newline>''
   @ ''        "priority": "High"\<newline>''
   @ ''    }\<newline>''
   @ '']\<newline>''
   @ ''\<newline>''
   @ ''Please provide ONLY the JSON array response, no additional text.\<newline>''\<close>

definition gemini_build_prompt :: "gemini_engine \<Rightarrow> string \<Rightarrow> string" where
  \<open>gemini_build_prompt self requirement_text =
     ''\<newline>''
   @ ''Please analyze the following software requirement document and generate comprehensive manual test cases.\<newline>''
   @ ''\<newline>''
   @ ''REQUIREMENT DOCUMENT:\<newline>''
   @ requirement_text @ ''\<newline>''
   @ ''\<newline>''
   @ ''INSTRUCTIONS:\<newline>''
   @ ''1. Identify all features and functionalities described in the requirements\<newline>''
   @ ''2. For each feature, generate relevant test cases\<newline>''
   @ ''3. Include positive, negative, and edge case scenarios\<newline>''
   @ ''4. Format the output as a JSON array where each test case has:\<newline>''
   @ ''   - feature: The feature/functionality being tested\<newline>''
   @ ''   - test_id: A unique identifier (e.g., TC001, TC002, etc.)\<newline>''
   @ ''   - title: A clear, descriptive test case title\<newline>''
   @ ''   - steps: An array of step-by-step instructions\<newline>''
   @ ''   - expected_result: The expected outcome\<newline>''
   @ ''   - priority: Test priority (High, Medium, or Low)\<newline>''
   @ ''\<newline>''
   @ ''EXAMPLE FORMAT:\<newline>''
   @ ''[\<newline>''
   @ ''    {\<newline>''
   @ ''        "feature": "User Login",\<newline>''
   @ ''        "test_id": "TC001",\<newline>''
   @ ''        "title": "Verify successful login with valid credentials",\<newline>''
   @ ''        "steps": [\<newline>''
   @ ''            "Navigate to login page",\<newline>''
   @ ''            "Enter valid username",\<newline>''
   @ ''            "Enter valid password",\<newline>''
   @ ''            "Click Login button"\<newline>''
   @ ''        ],\<newline>''
   @ ''        "expected_result": "User successfully logs in and is redirected to dashboard",\<newline>''
   @ ''        "priority": "High"\<newline>''
   @ ''    }\<newline>''
   @ '']\<newline>''
   @ ''\<newline>''
   @ ''Please provide ONLY the JSON array response, no additional text.\<newline>''\<close>

subsection \<open>\<^verbatim>\<open>_parse_response\<close>\<close>

text \<open>The dictionary built for the entry at index \<open>i\<close> of the parsed array.\<close>

definition openai_validated_tc :: "nat \<Rightarrow> pydict \<Rightarrow> pydict" where
  "openai_validated_tc i tc =
     [(''feature'', dict_get tc ''feature'' (PStr (''Feature '' @ str_nat (i + 1)))),
      (''test_id'', dict_get tc ''test_id'' (PStr (''TC'' @ format_03d (i + 1)))),
      (''title'', dict_get tc ''title'' (PStr (''Test Case '' @ str_nat (i + 1)))),
      (''steps'', dict_get tc ''steps'' (PList [])),
      (''expected_result'', dict_get tc ''expected_result'' (PStr [])),
      (''priority'', dict_get tc ''priority'' (PStr ''Medium''))]"

text \<open>The loop \<^verbatim>\<open>for i, tc in enumerate(testcases)\<close>, from index \<open>i\<close> on, with the list
  \<open>validated_testcases\<close> built so far.\<close>

fun openai_validate_loop :: "nat \<Rightarrow> pyval list \<Rightarrow> pydict list \<Rightarrow> pydict list" where
  "openai_validate_loop i [] validated_testcases = validated_testcases"
| "openai_validate_loop i (tc # rest) validated_testcases =
     (case tc of
        PDict d \<Rightarrow>
          openai_validate_loop (Suc i) rest (validated_testcases @ [openai_validated_tc i d])
      | _ \<Rightarrow> openai_validate_loop (Suc i) rest validated_testcases)"

text \<open>The body of the \<^verbatim>\<open>try\<close> block; \<open>json_loads\<close> is \<^verbatim>\<open>json.loads\<close>.\<close>

definition openai_parse_try :: "(string \<Rightarrow> exn + pyval) \<Rightarrow> string \<Rightarrow> exn + pydict list" where
  "openai_parse_try json_loads response_content =
     (let start_idx = str_find (CHR ''['') response_content;
          end_idx = str_rfind (CHR '']'') response_content + 1
      in if start_idx = - 1 \<or> end_idx = 0
         then Inl (Exc ValueError ''No JSON array found in response'')
         else (let json_content = py_slice response_content start_idx end_idx
               in case json_loads json_content of
                    Inl e \<Rightarrow> Inl e
                  | Inr testcases \<Rightarrow>
                      (case testcases of
                         PList tcs \<Rightarrow> Inr (openai_validate_loop 0 tcs [])
                       | _ \<Rightarrow> Inl (Exc ValueError ''Response is not a list of test cases''))))"

definition openai_parse_response :: "(string \<Rightarrow> exn + pyval) \<Rightarrow> string \<Rightarrow> exn + pydict list" where
  "openai_parse_response json_loads response_content =
     (case openai_parse_try json_loads response_content of
        Inr validated_testcases \<Rightarrow> Inr validated_testcases
      | Inl e \<Rightarrow>
          if isinstance e JSONDecodeError
          then Inl (Exc Exception (''Failed to parse JSON response: '' @ exc_str e))
          else if isinstance e Exception
          then Inl (Exc Exception (''Error parsing OpenAI response: '' @ exc_str e))
          else Inl e)"

definition gemini_validated_tc :: "nat \<Rightarrow> pydict \<Rightarrow> pydict" where
  "gemini_validated_tc i tc =
     [(''feature'', dict_get tc ''feature'' (PStr (''Feature '' @ str_nat (i + 1)))),
      (''test_id'', dict_get tc ''test_id'' (PStr (''TC'' @ format_03d (i + 1)))),
      (''title'', dict_get tc ''title'' (PStr (''Test Case '' @ str_nat (i + 1)))),
      (''steps'', dict_get tc ''steps'' (PList [])),
      (''expected_result'', dict_get tc ''expected_result'' (PStr [])),
      (''priority'', dict_get tc ''priority'' (PStr ''Medium''))]"

fun gemini_validate_loop :: "nat \<Rightarrow> pyval list \<Rightarrow> pydict list \<Rightarrow> pydict list" where
  "gemini_validate_loop i [] validated_testcases = validated_testcases"
| "gemini_validate_loop i (tc # rest) validated_testcases =
     (case tc of
        PDict d \<Rightarrow>
          gemini_validate_loop (Suc i) rest (validated_testcases @ [gemini_validated_tc i d])
      | _ \<Rightarrow> gemini_validate_loop (Suc i) rest validated_testcases)"

definition gemini_parse_try :: "(string \<Rightarrow> exn + pyval) \<Rightarrow> string \<Rightarrow> exn + pydict list" where
  "gemini_parse_try json_loads response_content =
     (let start_idx = str_find (CHR ''['') response_content;
          end_idx = str_rfind (CHR '']'') response_content + 1
      in if start_idx = - 1 \<or> end_idx = 0
         then Inl (Exc ValueError ''No JSON array found in response'')
         else (let json_content = py_slice response_content start_idx end_idx
               in case json_loads json_content of
                    Inl e \<Rightarrow> Inl e
                  | Inr testcases \<Rightarrow>
                      (case testcases of
                         PList tcs \<Rightarrow> Inr (gemini_validate_loop 0 tcs [])
                       | _ \<Rightarrow> Inl (Exc ValueError ''Response is not a list of test cases''))))"

definition gemini_parse_response :: "(string \<Rightarrow> exn + pyval) \<Rightarrow> string \<Rightarrow> exn + pydict list" where
  "gemini_parse_response json_loads response_content =
     (case gemini_parse_try json_loads response_content of
        Inr validated_testcases \<Rightarrow> Inr validated_testcases
      | Inl e \<Rightarrow>
          if isinstance e JSONDecodeError
          then Inl (Exc Exception (''Failed to parse JSON response: '' @ exc_str e))
          else if isinstance e Exception
          then Inl (Exc Exception (''Error parsing Gemini response: '' @ exc_str e))
          else Inl e)"

section \<open>Effects and the outside world\<close>

text \<open>
  What a run does to the outside is a list of events, in order: lines printed, requests sent
  to the two APIs, the library configuration call, and the directory and workbook written
  by the export. An effectful function returns its outcome (\<open>Inl\<close> the exception raised)
  with the events it caused.
\<close>

record chat_request =
  request_client :: openai_client
  request_model :: pyval
  request_messages :: "(string \<times> string) list"
  request_temperature :: string

datatype chat_response = ChatResponse "string option list"

datatype gemini_response = GeminiResponse "exn + string"

datatype file_handle = File string string

datatype event =
    Print string
  | ChatCompletionsCreate chat_request
  | GenerateContent generative_model string
  | GenaiConfigure pyval
  | Mkdir string
  | ExcelWrite string "pydict list"

type_synonym 'a io = "(exn + 'a) \<times> event list"

definition io_return :: "'a \<Rightarrow> 'a io" where
  "io_return x = (Inr x, [])"

definition io_raise :: "exn \<Rightarrow> 'a io" where
  "io_raise e = (Inl e, [])"

definition io_lift :: "exn + 'a \<Rightarrow> 'a io" where
  "io_lift r = (r, [])"

definition io_effect :: "event \<Rightarrow> exn + 'a \<Rightarrow> 'a io" where
  "io_effect ev r = (r, [ev])"

definition io_print :: "string \<Rightarrow> unit io" where
  "io_print s = (Inr (), [Print s])"

definition sys_exit :: "int \<Rightarrow> 'a io" where
  "sys_exit n = io_raise (SystemExit n)"

definition io_bind :: "'a io \<Rightarrow> ('a \<Rightarrow> 'b io) \<Rightarrow> 'b io" where
  "io_bind m f =
     (case m of
        (Inl e, t) \<Rightarrow> (Inl e, t)
      | (Inr x, t) \<Rightarrow> (case f x of (r, t') \<Rightarrow> (r, t @ t')))"

text \<open>\<^verbatim>\<open>try: m  except Exception as e: handler(e)\<close>.\<close>

definition io_except_Exception :: "'a io \<Rightarrow> (exn \<Rightarrow> 'a io) \<Rightarrow> 'a io" where
  "io_except_Exception m handler =
     (case m of
        (Inl e, t) \<Rightarrow>
          if isinstance e Exception
          then (case handler e of (r, t') \<Rightarrow> (r, t @ t'))
          else (Inl e, t)
      | (Inr x, t) \<Rightarrow> (Inr x, t))"

text \<open>
  The libraries and the operating system, as the program sees them. Each field is the
  behaviour of one call the source makes: \<^verbatim>\<open>json.loads\<close>, the two API calls, the three
  constructors of the API libraries, \<^verbatim>\<open>Path.exists\<close>, \<^verbatim>\<open>Path.suffix\<close>, \<^verbatim>\<open>str(Path)\<close>,
  \<^verbatim>\<open>open\<close>, \<^verbatim>\<open>file.read\<close>, \<^verbatim>\<open>yaml.safe_load\<close>, reading the pages of a PDF and the
  paragraphs of a DOCX file, creating the parent directory, writing and formatting the
  workbook, \<^verbatim>\<open>str.strip\<close>, and \<^verbatim>\<open>repr\<close> of a list or dictionary.
\<close>

record env =
  json_loads :: "string \<Rightarrow> exn + pyval"
  chat_completions_create :: "chat_request \<Rightarrow> exn + chat_response"
  generate_content :: "generative_model \<Rightarrow> string \<Rightarrow> exn + gemini_response"
  openai_new :: "pyval \<Rightarrow> exn + openai_client"
  genai_configure :: "pyval \<Rightarrow> exn + unit"
  generative_model_new :: "pyval \<Rightarrow> exn + generative_model"
  path_exists :: "string \<Rightarrow> bool"
  path_suffix :: "string \<Rightarrow> string"
  path_str :: "string \<Rightarrow> string"
  fs_open :: "string \<Rightarrow> string \<Rightarrow> exn + file_handle"
  file_read :: "file_handle \<Rightarrow> exn + string"
  yaml_safe_load :: "file_handle \<Rightarrow> exn + pyval"
  pdf_page_texts :: "string \<Rightarrow> exn + string list"
  docx_paragraph_texts :: "string \<Rightarrow> exn + string list"
  mkdir_parent :: "string \<Rightarrow> exn + unit"
  excel_write :: "string \<Rightarrow> pydict list \<Rightarrow> exn + unit"
  str_strip :: "string \<Rightarrow> string"
  container_repr :: "pyval \<Rightarrow> string"

text \<open>The module-level variables, set once when the modules are imported.\<close>

record modules =
  OPENAI_AVAILABLE :: bool
  GEMINI_AVAILABLE :: bool
  PDF_AVAILABLE :: bool
  DOCX_AVAILABLE :: bool

subsection \<open>More built-ins\<close>

text \<open>\<^verbatim>\<open>str.lower\<close> on the ASCII letters. Bytes of other characters are left alone, which
  agrees with Python wherever the result is compared with an ASCII literal that has no
  \<open>k\<close> in it, as in every comparison of this program.\<close>

definition char_lower :: "char \<Rightarrow> char" where
  "char_lower c =
     (case map_of (zip ''ABCDEFGHIJKLMNOPQRSTUVWXYZ'' ''abcdefghijklmnopqrstuvwxyz'') c of
        Some l \<Rightarrow> l
      | None \<Rightarrow> c)"

definition str_lower :: "string \<Rightarrow> string" where
  "str_lower s = map char_lower s"

text \<open>\<^verbatim>\<open>len\<close> of a string counts code points: the bytes that are not UTF-8 continuation
  bytes.\<close>

definition py_len :: "string \<Rightarrow> nat" where
  "py_len s = length (filter (\<lambda>c. \<not> (128 \<le> (of_char c :: nat) \<and> (of_char c :: nat) < 192)) s)"

text \<open>\<^verbatim>\<open>str(v)\<close>; \<open>repr\<close> is asked for lists and dictionaries only.\<close>

fun py_str :: "(pyval \<Rightarrow> string) \<Rightarrow> pyval \<Rightarrow> string" where
  "py_str repr (PStr s) = s"
| "py_str repr PNone = ''None''"
| "py_str repr (PBool b) = (if b then ''True'' else ''False'')"
| "py_str repr (PInt n) = str_int n"
| "py_str repr (PFloat f) = f"
| "py_str repr v = repr v"

text \<open>Truth value of an object, as \<^verbatim>\<open>not v\<close> tests it. A float is kept by its \<^verbatim>\<open>repr\<close>,
  and the two zeros print as \<^verbatim>\<open>0.0\<close> and \<^verbatim>\<open>-0.0\<close>.\<close>

fun py_truthy :: "pyval \<Rightarrow> bool" where
  "py_truthy PNone = False"
| "py_truthy (PBool b) = b"
| "py_truthy (PInt n) = (n \<noteq> 0)"
| "py_truthy (PFloat f) = (f \<noteq> ''0.0'' \<and> f \<noteq> ''-0.0'')"
| "py_truthy (PStr s) = (s \<noteq> [])"
| "py_truthy (PList xs) = (xs \<noteq> [])"
| "py_truthy (PDict d) = (d \<noteq> [])"

fun type_name :: "pyval \<Rightarrow> string" where
  "type_name PNone = ''NoneType''"
| "type_name (PBool b) = ''bool''"
| "type_name (PInt n) = ''int''"
| "type_name (PFloat f) = ''float''"
| "type_name (PStr s) = ''str''"
| "type_name (PList xs) = ''list''"
| "type_name (PDict d) = ''dict''"

text \<open>The \<^verbatim>\<open>AttributeError\<close> of calling a method the object does not have.\<close>

definition no_attribute :: "string \<Rightarrow> string \<Rightarrow> exn" where
  "no_attribute ty attr =
     Exc AttributeError
       ([CHR 0x27] @ ty @ [CHR 0x27] @ '' object has no attribute '' @ [CHR 0x27] @ attr @ [CHR 0x27])"

text \<open>\<^verbatim>\<open>sep.join(xs)\<close>.\<close>

fun str_join :: "string \<Rightarrow> string list \<Rightarrow> string" where
  "str_join sep [] = []"
| "str_join sep [x] = x"
| "str_join sep (x # y # ys) = x @ sep @ str_join sep (y # ys)"

text \<open>The pictographs the program prints, as their UTF-8 bytes.\<close>

definition cross_mark :: string where
  "cross_mark = [CHR 0xE2, CHR 0x9D, CHR 0x8C]"

definition check_mark :: string where
  "check_mark = [CHR 0xE2, CHR 0x9C, CHR 0x85]"

definition open_book :: string where
  "open_book = [CHR 0xF0, CHR 0x9F, CHR 0x93, CHR 0x96]"

definition robot_face :: string where
  "robot_face = [CHR 0xF0, CHR 0x9F, CHR 0xA4, CHR 0x96]"

definition test_tube :: string where
  "test_tube = [CHR 0xF0, CHR 0x9F, CHR 0xA7, CHR 0xAA]"

definition floppy_disk :: string where
  "floppy_disk = [CHR 0xF0, CHR 0x9F, CHR 0x92, CHR 0xBE]"

definition party_popper :: string where
  "party_popper = [CHR 0xF0, CHR 0x9F, CHR 0x8E, CHR 0x89]"

subsection \<open>\<^verbatim>\<open>generate_testcases\<close>\<close>

text \<open>
  Each method takes the engine object and the module variables and returns them as they
  are after the call, next to its outcome and events. \<^verbatim>\<open>response.choices[0]\<close> raises
  \<^verbatim>\<open>IndexError\<close> on an empty list; a \<^verbatim>\<open>content\<close> of \<^verbatim>\<open>None\<close> makes \<^verbatim>\<open>_parse_response\<close>
  fail at its first line, with the \<^verbatim>\<open>AttributeError\<close> wrapped by its last handler.
\<close>

definition openai_system_message :: string where
  "openai_system_message =
     ''You are an expert software testing analyst. Generate comprehensive manual test cases based on software requirements.''"

definition openai_generate_testcases ::
  "env \<Rightarrow> openai_engine \<Rightarrow> modules \<Rightarrow> string \<Rightarrow> pydict list io \<times> openai_engine \<times> modules" where
  "openai_generate_testcases env self mods requirement_text =
     (let prompt = openai_build_prompt self requirement_text;
          request = \<lparr>request_client = self_client self,
                     request_model = self_model self,
                     request_messages = [(''system'', openai_system_message), (''user'', prompt)],
                     request_temperature = ''0.3''\<rparr>;
          try_block =
            io_bind (io_effect (ChatCompletionsCreate request) (chat_completions_create env request))
              (\<lambda>response. case response of
                 ChatResponse choices \<Rightarrow>
                   (case choices of
                      [] \<Rightarrow> io_raise (Exc IndexError ''list index out of range'')
                    | choice # _ \<Rightarrow>
                        (case choice of
                           None \<Rightarrow>
                             io_raise (Exc Exception (''Error parsing OpenAI response: ''
                               @ exc_str (no_attribute ''NoneType'' ''find'')))
                         | Some content \<Rightarrow>
                             io_lift (openai_parse_response (json_loads env) content))))
      in (io_except_Exception try_block
            (\<lambda>e. io_raise (Exc Exception (''Error calling OpenAI API: '' @ exc_str e))),
          self, mods))"

definition gemini_generate_testcases ::
  "env \<Rightarrow> gemini_engine \<Rightarrow> modules \<Rightarrow> string \<Rightarrow> pydict list io \<times> gemini_engine \<times> modules" where
  "gemini_generate_testcases env self mods requirement_text =
     (let prompt = gemini_build_prompt self requirement_text;
          try_block =
            io_bind (io_effect (GenerateContent (self_gemini_model self) prompt)
                       (generate_content env (self_gemini_model self) prompt))
              (\<lambda>response. case response of
                 GeminiResponse text \<Rightarrow>
                   io_bind (io_lift text)
                     (\<lambda>content. io_lift (gemini_parse_response (json_loads env) content)))
      in (io_except_Exception try_block
            (\<lambda>e. io_raise (Exc Exception (''Error calling Gemini API: '' @ exc_str e))),
          self, mods))"

subsection \<open>The constructors\<close>

definition openai_init :: "env \<Rightarrow> modules \<Rightarrow> pyval \<Rightarrow> pyval \<Rightarrow> openai_engine io" where
  "openai_init env mods api_key model =
     (if \<not> OPENAI_AVAILABLE mods
      then io_raise (Exc ImportError ''OpenAI package is required. Install with: pip install openai'')
      else if \<not> py_truthy api_key
      then io_raise (Exc ValueError ''OpenAI API key is required'')
      else io_bind (io_lift (openai_new env api_key))
             (\<lambda>c. io_return \<lparr>self_client = c, self_model = model\<rparr>))"

definition gemini_init :: "env \<Rightarrow> modules \<Rightarrow> pyval \<Rightarrow> pyval \<Rightarrow> gemini_engine io" where
  "gemini_init env mods api_key model =
     (if \<not> GEMINI_AVAILABLE mods
      then io_raise (Exc ImportError
             ''Google Generative AI package is required. Install with: pip install google-generativeai'')
      else if \<not> py_truthy api_key
      then io_raise (Exc ValueError ''Gemini API key is required'')
      else io_bind (io_effect (GenaiConfigure api_key) (genai_configure env api_key))
             (\<lambda>_. io_bind (io_lift (generative_model_new env model))
                (\<lambda>m. io_return \<lparr>self_gemini_model = m\<rparr>)))"

section \<open>Text extraction: \<^verbatim>\<open>extract_text.py\<close>\<close>

definition extract_text_from_pdf :: "env \<Rightarrow> modules \<Rightarrow> string \<Rightarrow> exn + string" where
  "extract_text_from_pdf env mods file_path =
     (if \<not> PDF_AVAILABLE mods
      then Inl (Exc ImportError
             ''PyPDF2 is required to read PDF files. Install with: pip install PyPDF2'')
      else (case pdf_page_texts env file_path of
              Inl e \<Rightarrow>
                if isinstance e Exception
                then Inl (Exc Exception (''Error reading PDF file: '' @ exc_str e))
                else Inl e
            | Inr pages \<Rightarrow>
                Inr (foldl (\<lambda>text_content page. text_content @ page @ ''\<newline>'') [] pages)))"

definition extract_text_from_docx :: "env \<Rightarrow> modules \<Rightarrow> string \<Rightarrow> exn + string" where
  "extract_text_from_docx env mods file_path =
     (if \<not> DOCX_AVAILABLE mods
      then Inl (Exc ImportError
             ''python-docx is required to read DOCX files. Install with: pip install python-docx'')
      else (case docx_paragraph_texts env file_path of
              Inl e \<Rightarrow>
                if isinstance e Exception
                then Inl (Exc Exception (''Error reading DOCX file: '' @ exc_str e))
                else Inl e
            | Inr paragraphs \<Rightarrow>
                Inr (foldl (\<lambda>text_content paragraph. text_content @ paragraph @ ''\<newline>'')
                       [] paragraphs)))"

text \<open>\<^verbatim>\<open>with open(file_path, 'r', encoding=enc) as file: return file.read()\<close>.\<close>

definition open_and_read :: "env \<Rightarrow> string \<Rightarrow> string \<Rightarrow> exn + string" where
  "open_and_read env file_path encoding =
     (case fs_open env file_path encoding of
        Inl e \<Rightarrow> Inl e
      | Inr f \<Rightarrow> file_read env f)"

definition extract_text_from_txt :: "env \<Rightarrow> string \<Rightarrow> exn + string" where
  "extract_text_from_txt env file_path =
     (case open_and_read env file_path ''utf-8'' of
        Inr text \<Rightarrow> Inr text
      | Inl e \<Rightarrow>
          if isinstance e UnicodeDecodeError
          then (case open_and_read env file_path ''latin-1'' of
                  Inr text \<Rightarrow> Inr text
                | Inl e2 \<Rightarrow>
                    if isinstance e2 Exception
                    then Inl (Exc Exception (''Error reading TXT file: '' @ exc_str e2))
                    else Inl e2)
          else if isinstance e Exception
          then Inl (Exc Exception (''Error reading TXT file: '' @ exc_str e))
          else Inl e)"

definition extract_text_from_file :: "env \<Rightarrow> modules \<Rightarrow> string \<Rightarrow> exn + string" where
  "extract_text_from_file env mods file_path =
     (let extension = str_lower (path_suffix env file_path)
      in if extension = ''.pdf'' then extract_text_from_pdf env mods file_path
         else if extension = ''.docx'' then extract_text_from_docx env mods file_path
         else if extension = ''.txt'' then extract_text_from_txt env file_path
         else Inl (Exc ValueError (''Unsupported file format: '' @ extension
                @ ''. Supported formats: .pdf, .docx, .txt'')))"

section \<open>The export: \<^verbatim>\<open>export_excel.py\<close>\<close>

text \<open>The numbered lines \<^verbatim>\<open>[f"{i+1}. {step}" for i, step in enumerate(steps)]\<close>.\<close>

definition numbered_steps :: "env \<Rightarrow> pyval list \<Rightarrow> string list" where
  "numbered_steps env steps =
     map (\<lambda>(i, step). str_nat (i + 1) @ ''. '' @ py_str (container_repr env) step)
       (enumerate 0 steps)"

definition make_row :: "env \<Rightarrow> pydict \<Rightarrow> pydict" where
  "make_row env tc =
     (let steps_text =
            (case dict_get tc ''steps'' PNone of
               PList steps \<Rightarrow> str_join ''\<newline>'' (numbered_steps env steps)
             | _ \<Rightarrow> py_str (container_repr env) (dict_get tc ''steps'' (PStr [])))
      in [(''Test ID'', dict_get tc ''test_id'' (PStr [])),
          (''Feature'', dict_get tc ''feature'' (PStr [])),
          (''Test Case Title'', dict_get tc ''title'' (PStr [])),
          (''Test Steps'', PStr steps_text),
          (''Expected Result'', dict_get tc ''expected_result'' (PStr [])),
          (''Priority'', dict_get tc ''priority'' (PStr ''Medium'')),
          (''Status'', PStr ''Not Executed''),
          (''Actual Result'', PStr []),
          (''Notes'', PStr [])])"

text \<open>The loop \<^verbatim>\<open>for tc in testcases\<close>, with the list \<open>rows\<close> built so far.\<close>

fun rows_loop :: "env \<Rightarrow> pydict list \<Rightarrow> pydict list \<Rightarrow> pydict list" where
  "rows_loop env [] rows = rows"
| "rows_loop env (tc # rest) rows = rows_loop env rest (rows @ [make_row env tc])"

text \<open>Everything from \<^verbatim>\<open>pd.DataFrame(rows)\<close> to the end of the \<^verbatim>\<open>with\<close> block, which writes
  and formats the workbook, is the one event \<open>ExcelWrite\<close>.\<close>

definition save_testcases_to_excel :: "env \<Rightarrow> pydict list \<Rightarrow> string \<Rightarrow> unit io" where
  "save_testcases_to_excel env testcases output_path =
     (if testcases = []
      then io_raise (Exc ValueError ''No test cases to export'')
      else (let rows = rows_loop env testcases []
            in io_bind (io_effect (Mkdir output_path) (mkdir_parent env output_path))
                 (\<lambda>_. io_bind (io_effect (ExcelWrite output_path rows)
                                  (excel_write env output_path rows))
                    (\<lambda>_. io_print (check_mark @ '' Excel file saved successfully: ''
                            @ path_str env output_path)))))"

section \<open>The command line and \<^verbatim>\<open>main.py\<close>\<close>

definition load_config :: "env \<Rightarrow> string \<Rightarrow> pyval io" where
  "load_config env config_path =
     (let try_block =
            (case fs_open env config_path ''utf-8'' of
               Inl e \<Rightarrow> Inl e
             | Inr f \<Rightarrow> yaml_safe_load env f)
      in case try_block of
           Inr v \<Rightarrow> io_return v
         | Inl e \<Rightarrow>
             if isinstance e FileNotFoundError
             then io_bind (io_print (cross_mark @ '' Configuration file '' @ [CHR 0x27]
                            @ config_path @ [CHR 0x27] @ '' not found.''))
                    (\<lambda>_. sys_exit 1)
             else if isinstance e YAMLError
             then io_bind (io_print (cross_mark @ '' Error parsing configuration file: ''
                            @ exc_str e))
                    (\<lambda>_. sys_exit 1)
             else io_raise e)"

datatype ai_engine = OpenAIEngine openai_engine | GeminiEngine gemini_engine

definition get_ai_engine :: "env \<Rightarrow> modules \<Rightarrow> pyval \<Rightarrow> ai_engine io" where
  "get_ai_engine env mods config =
     (case config of
        PDict cfg \<Rightarrow>
          (case dict_get cfg ''ai_engine'' (PStr ''openai'') of
             PStr s \<Rightarrow>
               (let engine_type = str_lower s
                in if engine_type = ''openai''
                   then (case dict_get cfg ''openai'' (PDict []) of
                           PDict openai_config \<Rightarrow>
                             io_bind (openai_init env mods
                                        (dict_get openai_config ''api_key'' PNone)
                                        (dict_get openai_config ''model'' (PStr ''gpt-4'')))
                               (\<lambda>engine. io_return (OpenAIEngine engine))
                         | v \<Rightarrow> io_raise (no_attribute (type_name v) ''get''))
                   else if engine_type = ''gemini''
                   then (case dict_get cfg ''gemini'' (PDict []) of
                           PDict gemini_config \<Rightarrow>
                             io_bind (gemini_init env mods
                                        (dict_get gemini_config ''api_key'' PNone)
                                        (dict_get gemini_config ''model'' (PStr ''gemini-pro'')))
                               (\<lambda>engine. io_return (GeminiEngine engine))
                         | v \<Rightarrow> io_raise (no_attribute (type_name v) ''get''))
                   else io_bind (io_print (cross_mark @ '' Unsupported AI engine: '' @ engine_type))
                          (\<lambda>_. sys_exit 1))
           | v \<Rightarrow> io_raise (no_attribute (type_name v) ''lower''))
      | v \<Rightarrow> io_raise (no_attribute (type_name v) ''get''))"

text \<open>\<^verbatim>\<open>ai_engine.generate_testcases(text_content)\<close>, on whichever class the object has.\<close>

definition generate_testcases :: "env \<Rightarrow> modules \<Rightarrow> ai_engine \<Rightarrow> string \<Rightarrow> pydict list io" where
  "generate_testcases env mods engine requirement_text =
     (case engine of
        OpenAIEngine self \<Rightarrow> fst (openai_generate_testcases env self mods requirement_text)
      | GeminiEngine self \<Rightarrow> fst (gemini_generate_testcases env self mods requirement_text))"

text \<open>The namespace \<^verbatim>\<open>parser.parse_args()\<close> returns to \<^verbatim>\<open>main\<close>.\<close>

record args =
  args_input_file :: string
  args_output :: string
  args_config :: string

text \<open>The body of the \<^verbatim>\<open>try\<close> block of \<^verbatim>\<open>main\<close>.\<close>

definition main_try :: "env \<Rightarrow> modules \<Rightarrow> args \<Rightarrow> unit io" where
  "main_try env mods args =
     io_bind (io_lift (extract_text_from_file env mods (args_input_file args)))
       (\<lambda>text_content.
     io_bind (if str_strip env text_content = []
              then io_bind (io_print (cross_mark @ '' No text content found in the document.''))
                     (\<lambda>_. sys_exit 1)
              else io_return ())
       (\<lambda>_.
     io_bind (io_print (check_mark @ '' Extracted '' @ str_nat (py_len text_content)
                @ '' characters from document''))
       (\<lambda>_.
     io_bind (load_config env (args_config args))
       (\<lambda>config.
     io_bind (get_ai_engine env mods config)
       (\<lambda>ai_engine.
     io_bind (case config of
                PDict cfg \<Rightarrow>
                  io_print (robot_face @ '' Using AI engine: ''
                    @ py_str (container_repr env) (dict_get cfg ''ai_engine'' (PStr ''openai'')))
              | v \<Rightarrow> io_raise (no_attribute (type_name v) ''get''))
       (\<lambda>_.
     io_bind (io_print (test_tube @ '' Generating test cases...''))
       (\<lambda>_.
     io_bind (generate_testcases env mods ai_engine text_content)
       (\<lambda>testcases.
     io_bind (if testcases = []
              then io_bind (io_print (cross_mark @ '' No test cases were generated.''))
                     (\<lambda>_. sys_exit 1)
              else io_return ())
       (\<lambda>_.
     io_bind (io_print (check_mark @ '' Generated '' @ str_nat (length testcases)
                @ '' test cases''))
       (\<lambda>_.
     io_bind (io_print (floppy_disk @ '' Saving test cases to: '' @ args_output args))
       (\<lambda>_.
     io_bind (save_testcases_to_excel env testcases (args_output args))
       (\<lambda>_.
     io_print (party_popper @ '' Test case generation completed successfully!'')))))))))))))"

text \<open>\<^verbatim>\<open>main\<close> from the line after \<^verbatim>\<open>args = parser.parse_args()\<close> on. An exception that leaves
  \<open>main\<close> ends the process; \<open>SystemExit n\<close> ends it with status \<open>n\<close>.\<close>

definition main :: "env \<Rightarrow> modules \<Rightarrow> args \<Rightarrow> unit io" where
  "main env mods args =
     (if \<not> path_exists env (args_input_file args)
      then io_bind (io_print (cross_mark @ '' Input file '' @ [CHR 0x27] @ args_input_file args
                      @ [CHR 0x27] @ '' not found.''))
             (\<lambda>_. sys_exit 1)
      else io_bind (io_print (open_book @ '' Reading requirement document: ''
                      @ args_input_file args))
             (\<lambda>_. io_except_Exception (main_try env mods args)
                (\<lambda>e. io_bind (io_print (cross_mark @ '' Error during processing: '' @ exc_str e))
                   (\<lambda>_. sys_exit 1))))"

subsection \<open>The argument parser\<close>

text \<open>
  The parser \<^verbatim>\<open>main\<close> declares is a list of arguments in the order of the
  \<^verbatim>\<open>add_argument\<close> calls: a positional with its destination, or an optional with its option
  strings and default. \<open>parse_args\<close> reads a command line against such a declaration the way
  \<^verbatim>\<open>argparse\<close> does for arguments that take one value, on the command lines in which a token
  that starts with \<^verbatim>\<open>-\<close> is one of the declared option strings, written out in full; on any
  other command line (\<^verbatim>\<open>--help\<close>, abbreviations, \<^verbatim>\<open>--output=x\<close>, \<^verbatim>\<open>-ox\<close>, \<^verbatim>\<open>--\<close>) it is \<open>None\<close>.
  A command line \<^verbatim>\<open>argparse\<close> rejects ends the process with status 2.
\<close>

datatype argument = Positional string | Optional "string list" pyval

definition ArgumentParser :: "argument list" where
  "ArgumentParser = []"

definition add_argument :: "argument list \<Rightarrow> argument \<Rightarrow> argument list" where
  "add_argument p a = p @ [a]"

definition parser :: "argument list" where
  "parser =
     add_argument
       (add_argument
          (add_argument ArgumentParser (Positional ''input_file''))
          (Optional [''-o'', ''--output''] (PStr ''testcases.xlsx'')))
       (Optional [''-c'', ''--config''] (PStr ''config.yaml''))"

text \<open>The destination of an optional: its first long option string, or else its first option
  string, without the leading dashes and with \<^verbatim>\<open>-\<close> turned into \<^verbatim>\<open>_\<close>.\<close>

definition is_long_option :: "string \<Rightarrow> bool" where
  "is_long_option s = (take 2 s = ''--'')"

definition option_dest :: "string list \<Rightarrow> string" where
  "option_dest option_strings =
     map (\<lambda>c. if c = CHR ''-'' then CHR ''_'' else c)
       (dropWhile (\<lambda>c. c = CHR ''-'')
          (case filter is_long_option option_strings of
             l # _ \<Rightarrow> l
           | [] \<Rightarrow> (case option_strings of s # _ \<Rightarrow> s | [] \<Rightarrow> [])))"

fun argument_dest :: "argument \<Rightarrow> string" where
  "argument_dest (Positional dest) = dest"
| "argument_dest (Optional option_strings dflt) = option_dest option_strings"

fun argument_default :: "argument \<Rightarrow> pyval" where
  "argument_default (Positional dest) = PNone"
| "argument_default (Optional option_strings dflt) = dflt"

definition initial_namespace :: "argument list \<Rightarrow> pydict" where
  "initial_namespace decl = map (\<lambda>a. (argument_dest a, argument_default a)) decl"

fun positional_dests :: "argument list \<Rightarrow> string list" where
  "positional_dests [] = []"
| "positional_dests (Positional dest # decl) = dest # positional_dests decl"
| "positional_dests (Optional option_strings dflt # decl) = positional_dests decl"

fun find_option :: "argument list \<Rightarrow> string \<Rightarrow> string option" where
  "find_option [] tok = None"
| "find_option (Positional dest # decl) tok = find_option decl tok"
| "find_option (Optional option_strings dflt # decl) tok =
     (if tok \<in> set option_strings then Some (option_dest option_strings)
      else find_option decl tok)"

definition option_like :: "string \<Rightarrow> bool" where
  "option_like tok = (case tok of [] \<Rightarrow> False | c # _ \<Rightarrow> c = CHR ''-'')"

text \<open>Reading the tokens from left to right, with the positionals still to fill and the
  namespace so far.\<close>

fun consume_args :: "argument list \<Rightarrow> string list \<Rightarrow> pydict \<Rightarrow> string list \<Rightarrow> exn + pydict" where
  "consume_args decl pending ns [] =
     (if pending = [] then Inr ns else Inl (SystemExit 2))"
| "consume_args decl pending ns (tok # rest) =
     (case find_option decl tok of
        Some dest \<Rightarrow>
          (case rest of
             [] \<Rightarrow> Inl (SystemExit 2)
           | v # rest' \<Rightarrow>
               if option_like v then Inl (SystemExit 2)
               else consume_args decl pending (AList.update dest (PStr v) ns) rest')
      | None \<Rightarrow>
          (case pending of
             [] \<Rightarrow> Inl (SystemExit 2)
           | dest # pending' \<Rightarrow>
               consume_args decl pending' (AList.update dest (PStr tok) ns) rest))"

definition in_fragment :: "argument list \<Rightarrow> string list \<Rightarrow> bool" where
  "in_fragment decl argv =
     list_all (\<lambda>tok. \<not> option_like tok \<or> find_option decl tok \<noteq> None) argv"

definition parse_args :: "argument list \<Rightarrow> string list \<Rightarrow> (exn + pydict) option" where
  "parse_args decl argv =
     (if in_fragment decl argv
      then Some (consume_args decl (positional_dests decl) (initial_namespace decl) argv)
      else None)"

section \<open>What the claims say, in their own words\<close>

subsection \<open>Normalised test cases\<close>

definition six_fields :: "string list" where
  "six_fields = [''feature'', ''test_id'', ''title'', ''steps'', ''expected_result'', ''priority'']"

text \<open>The default of a field for the entry at index \<open>i\<close> (counted from 0) of the parsed array.\<close>

definition positional_default :: "string \<Rightarrow> nat \<Rightarrow> pyval" where
  "positional_default k i =
     (if k = ''feature'' then PStr (''Feature '' @ str_nat (i + 1))
      else if k = ''test_id'' then PStr (''TC'' @ format_03d (i + 1))
      else if k = ''title'' then PStr (''Test Case '' @ str_nat (i + 1))
      else if k = ''steps'' then PList []
      else if k = ''expected_result'' then PStr []
      else PStr ''Medium'')"

definition normalised_entry :: "nat \<Rightarrow> pydict \<Rightarrow> pydict" where
  "normalised_entry i d =
     map (\<lambda>k. (k, case map_of d k of Some v \<Rightarrow> v | None \<Rightarrow> positional_default k i)) six_fields"

fun is_dict :: "pyval \<Rightarrow> bool" where
  "is_dict (PDict d) = True"
| "is_dict v = False"

fun dict_items :: "pyval \<Rightarrow> pydict" where
  "dict_items (PDict d) = d"
| "dict_items v = []"

text \<open>The entries kept from a parsed array: the dictionaries, in their order, each with the
  index it had in the array.\<close>

definition kept_entries :: "pyval list \<Rightarrow> pydict list" where
  "kept_entries arr =
     map (\<lambda>(i, v). normalised_entry i (dict_items v))
       (filter (\<lambda>(i, v). is_dict v) (enumerate 0 arr))"

text \<open>The text from the first \<^verbatim>\<open>[\<close> to the last \<^verbatim>\<open>]\<close> of the response, both included.\<close>

definition bracket_slice :: "string \<Rightarrow> string" where
  "bracket_slice r =
     dropWhile (\<lambda>c. c \<noteq> CHR ''['') (rev (dropWhile (\<lambda>c. c \<noteq> CHR '']'') (rev r)))"

text \<open>The list the claim promises, or \<open>None\<close> where it promises an exception.\<close>

definition expected_testcases :: "(string \<Rightarrow> exn + pyval) \<Rightarrow> string \<Rightarrow> pydict list option" where
  "expected_testcases loads r =
     (if CHR ''['' \<notin> set r \<or> CHR '']'' \<notin> set r then None
      else (case loads (bracket_slice r) of
              Inl e \<Rightarrow> None
            | Inr v \<Rightarrow> (case v of PList arr \<Rightarrow> Some (kept_entries arr) | _ \<Rightarrow> None)))"

text \<open>Whether a call returned or raised, and what it returned.\<close>

definition outcome :: "exn + 'a \<Rightarrow> 'a option" where
  "outcome r = (case r of Inl e \<Rightarrow> None | Inr x \<Rightarrow> Some x)"

text \<open>Whether a call raised an instance of a class.\<close>

definition raises :: "exn + 'a \<Rightarrow> exc_class \<Rightarrow> bool" where
  "raises r c = (case r of Inl e \<Rightarrow> isinstance e c | Inr x \<Rightarrow> False)"

subsection \<open>Spreadsheet rows\<close>

text \<open>Line \<open>k\<close> of the steps text, for \<open>k\<close> from 1 to the number of steps.\<close>

definition step_lines :: "env \<Rightarrow> pyval list \<Rightarrow> string list" where
  "step_lines env steps =
     map (\<lambda>k. str_nat k @ ''. '' @ py_str (container_repr env) (steps ! (k - 1)))
       [1 ..< Suc (length steps)]"

subsection \<open>The broad handler of \<^verbatim>\<open>main\<close>\<close>

text \<open>What \<^verbatim>\<open>main\<close> makes of an exception \<open>e\<close> that leaves a stage after the events \<open>t\<close>: an
  instance of \<^verbatim>\<open>Exception\<close> is reported and the process exits with status 1; anything else
  passes through.\<close>

definition handled :: "exn \<Rightarrow> event list \<Rightarrow> unit io" where
  "handled e t =
     (if isinstance e Exception
      then (Inl (SystemExit 1),
            t @ [Print (cross_mark @ '' Error during processing: '' @ exc_str e)])
      else (Inl e, t))"

text \<open>A run in which the broad handler caught \<open>e\<close>: the last line printed is the
  handler's report of \<open>e\<close>, and the process exits with status 1.\<close>

definition caught_by_handler :: "unit io \<Rightarrow> exn \<Rightarrow> bool" where
  "caught_by_handler run e =
     (fst run = Inl (SystemExit 1) \<and> snd run \<noteq> []
      \<and> last (snd run) = Print (cross_mark @ '' Error during processing: '' @ exc_str e))"

definition reading_line :: "args \<Rightarrow> event" where
  "reading_line args = Print (open_book @ '' Reading requirement document: '' @ args_input_file args)"

definition extracted_line :: "string \<Rightarrow> event" where
  "extracted_line text_content =
     Print (check_mark @ '' Extracted '' @ str_nat (py_len text_content)
       @ '' characters from document'')"

definition using_line :: "env \<Rightarrow> pydict \<Rightarrow> event" where
  "using_line env cfg =
     Print (robot_face @ '' Using AI engine: ''
       @ py_str (container_repr env) (dict_get cfg ''ai_engine'' (PStr ''openai'')))"

definition generating_line :: event where
  "generating_line = Print (test_tube @ '' Generating test cases...'')"

definition generated_line :: "pydict list \<Rightarrow> event" where
  "generated_line testcases =
     Print (check_mark @ '' Generated '' @ str_nat (length testcases) @ '' test cases'')"

definition saving_line :: "args \<Rightarrow> event" where
  "saving_line args = Print (floppy_disk @ '' Saving test cases to: '' @ args_output args)"

definition completed_line :: event where
  "completed_line = Print (party_popper @ '' Test case generation completed successfully!'')"

subsection \<open>Command lines\<close>

text \<open>A command line written item by item: a plain token, or an option string followed by
  its value.\<close>

datatype cmd_item = Plain string | Flagged string string

fun render_item :: "cmd_item \<Rightarrow> string list" where
  "render_item (Plain f) = [f]"
| "render_item (Flagged opt v) = [opt, v]"

definition render :: "cmd_item list \<Rightarrow> string list" where
  "render items = concat (map render_item items)"

fun item_ok :: "cmd_item \<Rightarrow> bool" where
  "item_ok (Plain f) = (\<not> option_like f)"
| "item_ok (Flagged opt v) =
     (opt \<in> {''-o'', ''--output'', ''-c'', ''--config''} \<and> \<not> option_like v)"

fun plain_tokens :: "cmd_item list \<Rightarrow> string list" where
  "plain_tokens [] = []"
| "plain_tokens (Plain f # items) = f # plain_tokens items"
| "plain_tokens (Flagged opt v # items) = plain_tokens items"

text \<open>The values given for one of two option strings, in order.\<close>

fun values_of :: "string \<Rightarrow> string \<Rightarrow> cmd_item list \<Rightarrow> string list" where
  "values_of short long [] = []"
| "values_of short long (Plain f # items) = values_of short long items"
| "values_of short long (Flagged opt v # items) =
     (if opt = short \<or> opt = long then v # values_of short long items
      else values_of short long items)"

text \<open>The value of an option: the last one given, the default when it is omitted.\<close>

definition option_value :: "string \<Rightarrow> string list \<Rightarrow> string" where
  "option_value dflt vs = (if vs = [] then dflt else last vs)"

definition expected_args :: "cmd_item list \<Rightarrow> exn + pydict" where
  "expected_args items =
     (case plain_tokens items of
        [f] \<Rightarrow>
          Inr [(''input_file'', PStr f),
               (''output'', PStr (option_value ''testcases.xlsx'' (values_of ''-o'' ''--output'' items))),
               (''config'', PStr (option_value ''config.yaml'' (values_of ''-c'' ''--config'' items)))]
      | _ \<Rightarrow> Inl (SystemExit 2))"

section \<open>A concrete world\<close>

text \<open>
  One run of the program, used to evaluate the definitions: the requirement file
  \<^verbatim>\<open>req.TXT\<close> is not valid UTF-8 and reads as \<^verbatim>\<open>Users log in.\<close> in latin-1, the configuration
  selects the OpenAI engine, and the model answers with a JSON array of three entries, the
  second of which is not an object.
\<close>

definition response0 :: string where
  \<open>response0 = ''Here you go: [{"title": "Login"}, 7, {}] Done.''\<close>

definition loads0 :: "string \<Rightarrow> exn + pyval" where
  \<open>loads0 s =
     (if s = ''[{"title": "Login"}, 7, {}]''
      then Inr (PList [PDict [(''title'', PStr ''Login'')], PInt 7, PDict []])
      else Inl (Exc JSONDecodeError ''Expecting value: line 1 column 1 (char 0)''))\<close>

definition testcases0 :: "pydict list" where
  "testcases0 =
     [[(''feature'', PStr ''Feature 1''), (''test_id'', PStr ''TC001''),
       (''title'', PStr ''Login''), (''steps'', PList []),
       (''expected_result'', PStr []), (''priority'', PStr ''Medium'')],
      [(''feature'', PStr ''Feature 3''), (''test_id'', PStr ''TC003''),
       (''title'', PStr ''Test Case 3''), (''steps'', PList []),
       (''expected_result'', PStr []), (''priority'', PStr ''Medium'')]]"

definition strip_ascii :: "string \<Rightarrow> string" where
  "strip_ascii s =
     rev (dropWhile (\<lambda>c. c = CHR '' '' \<or> c = CHR ''\<newline>'')
       (rev (dropWhile (\<lambda>c. c = CHR '' '' \<or> c = CHR ''\<newline>'') s)))"

definition config0 :: pydict where
  "config0 = [(''ai_engine'', PStr ''OpenAI''), (''openai'', PDict [(''api_key'', PStr ''sk-test'')])]"

definition env0 :: env where
  "env0 =
     \<lparr>json_loads = loads0,
      chat_completions_create = (\<lambda>request. Inr (ChatResponse [Some response0])),
      generate_content = (\<lambda>m prompt. Inr (GeminiResponse (Inr response0))),
      openai_new = (\<lambda>api_key. Inr (OpenAI api_key)),
      genai_configure = (\<lambda>api_key. Inr ()),
      generative_model_new = (\<lambda>m. Inr (GenerativeModel m)),
      path_exists = (\<lambda>p. p = ''req.TXT'' \<or> p = ''config.yaml''),
      path_suffix = (\<lambda>p. if p = ''req.TXT'' then ''.TXT'' else if p = ''config.yaml'' then ''.yaml'' else []),
      path_str = (\<lambda>p. p),
      fs_open = (\<lambda>p encoding.
        if p = ''req.TXT'' \<or> p = ''config.yaml'' then Inr (File p encoding)
        else Inl (Exc FileNotFoundError (''[Errno 2] No such file or directory: '' @ p))),
      file_read = (\<lambda>f. case f of File p encoding \<Rightarrow>
        if p = ''req.TXT'' \<and> encoding = ''utf-8''
        then Inl (Exc UnicodeDecodeError ''invalid start byte'')
        else if p = ''req.TXT'' then Inr ''Users log in.''
        else Inr []),
      yaml_safe_load = (\<lambda>f. Inr (PDict config0)),
      pdf_page_texts = (\<lambda>p. Inr [''page one'', ''page two'']),
      docx_paragraph_texts = (\<lambda>p. Inr [''paragraph'']),
      mkdir_parent = (\<lambda>p. Inr ()),
      excel_write = (\<lambda>p rows. Inr ()),
      str_strip = strip_ascii,
      container_repr = (\<lambda>v. ''[...]'')\<rparr>"

definition mods0 :: modules where
  "mods0 = \<lparr>OPENAI_AVAILABLE = True, GEMINI_AVAILABLE = True,
            PDF_AVAILABLE = True, DOCX_AVAILABLE = True\<rparr>"

definition args0 :: args where
  "args0 = \<lparr>args_input_file = ''req.TXT'', args_output = ''testcases.xlsx'',
            args_config = ''config.yaml''\<rparr>"

definition engine0 :: openai_engine where
  "engine0 = \<lparr>self_client = OpenAI (PStr ''sk-test''), self_model = PStr ''gpt-4''\<rparr>"

definition gemini0 :: gemini_engine where
  "gemini0 = \<lparr>self_gemini_model = GenerativeModel (PStr ''gemini-pro'')\<rparr>"

text \<open>The same world without the configuration file, and with an API that is down.\<close>

definition env_no_config :: env where
  "env_no_config =
     env0\<lparr>fs_open := (\<lambda>p encoding.
       if p = ''req.TXT'' then Inr (File p encoding)
       else Inl (Exc FileNotFoundError (''[Errno 2] No such file or directory: '' @ p)))\<rparr>"

definition env_api_down :: env where
  "env_api_down =
     env0\<lparr>chat_completions_create := (\<lambda>request. Inl (Exc OtherException ''Connection error.''))\<rparr>"

definition env_bad_answer :: env where
  "env_bad_answer =
     env0\<lparr>chat_completions_create :=
            (\<lambda>request. Inr (ChatResponse [Some ''I cannot help with that.''])),
          generate_content :=
            (\<lambda>m prompt. Inr (GeminiResponse (Inr ''I cannot help with that.'')))\<rparr>"

definition row0 :: pydict where
  "row0 =
     [(''Test ID'', PStr ''TC001''),
      (''Feature'', PStr []),
      (''Test Case Title'', PStr ''Login''),
      (''Test Steps'', PStr ''1. Open the page\<newline>2. 7''),
      (''Expected Result'', PStr []),
      (''Priority'', PStr ''Medium''),
      (''Status'', PStr ''Not Executed''),
      (''Actual Result'', PStr []),
      (''Notes'', PStr [])]"

definition tc0 :: pydict where
  "tc0 = [(''test_id'', PStr ''TC001''), (''title'', PStr ''Login''),
          (''steps'', PList [PStr ''Open the page'', PInt 7])]"

definition request0 :: chat_request where
  "request0 =
     \<lparr>request_client = OpenAI (PStr ''sk-test''),
      request_model = PStr ''gpt-4'',
      request_messages = [(''system'', openai_system_message),
                          (''user'', openai_build_prompt engine0 ''Users log in.'')],
      request_temperature = ''0.3''\<rparr>"

definition config_not_found_line :: event where
  "config_not_found_line =
     Print (cross_mark @ '' Configuration file '' @ [CHR 0x27] @ ''config.yaml'' @ [CHR 0x27]
       @ '' not found.'')"

definition env_bad_yaml :: env where
  "env_bad_yaml =
     env0\<lparr>yaml_safe_load :=
            (\<lambda>f. Inl (Exc YAMLError ''mapping values are not allowed here''))\<rparr>"

section \<open>Lemmas on the built-ins\<close>

declare str_nat.simps [simp del]

lemma str_find_conv:
  "str_find c s = (if c \<in> set s then int (length (takeWhile (\<lambda>x. x \<noteq> c) s)) else - 1)"
  by (induction s) (auto simp: Let_def)

lemma takeWhile_rev_less:
  "c \<in> set s \<Longrightarrow> length (takeWhile (\<lambda>x. x \<noteq> c) (rev s)) < length s"
proof -
  assume "c \<in> set s"
  then have "takeWhile (\<lambda>x. x \<noteq> c) (rev s) \<noteq> rev s"
    by auto
  moreover have "length (takeWhile (\<lambda>x. x \<noteq> c) (rev s)) \<le> length (rev s)"
    by (rule length_takeWhile_le)
  ultimately show ?thesis
    by (metis length_rev le_neq_implies_less takeWhile_eq_take take_all_iff order_refl)
qed

lemma str_rfind_conv:
  "str_rfind c s =
     (if c \<in> set s then int (length s) - 1 - int (length (takeWhile (\<lambda>x. x \<noteq> c) (rev s)))
      else - 1)"
proof (induction s)
  case Nil
  then show ?case by simp
next
  case (Cons x xs)
  show ?case
  proof (cases "c \<in> set xs")
    case True
    then have "takeWhile (\<lambda>x. x \<noteq> c) (rev xs @ [x]) = takeWhile (\<lambda>x. x \<noteq> c) (rev xs)"
      by (simp add: takeWhile_append1)
    moreover have "length (takeWhile (\<lambda>x. x \<noteq> c) (rev xs)) < length xs"
      using True by (rule takeWhile_rev_less)
    ultimately show ?thesis using True Cons by (simp add: Let_def)
  next
    case False
    then have tw: "takeWhile (\<lambda>x. x \<noteq> c) (rev xs @ [x]) = rev xs @ takeWhile (\<lambda>x. x \<noteq> c) [x]"
      by (intro takeWhile_append2) auto
    show ?thesis
    proof (cases "x = c")
      case True
      then have "length (takeWhile (\<lambda>x. x \<noteq> c) (rev xs @ [x])) = length xs"
        using tw by simp
      then show ?thesis using True False Cons by (simp add: Let_def)
    next
      case neq: False
      then show ?thesis using False Cons by (simp add: Let_def)
    qed
  qed
qed

lemma str_find_absent: "str_find c s = - 1 \<longleftrightarrow> c \<notin> set s"
  by (simp add: str_find_conv)

lemma str_rfind_absent: "str_rfind c s + 1 = 0 \<longleftrightarrow> c \<notin> set s"
proof -
  have "c \<in> set s \<Longrightarrow> length (takeWhile (\<lambda>x. x \<noteq> c) (rev s)) < length s"
    by (rule takeWhile_rev_less)
  then show ?thesis by (auto simp: str_rfind_conv)
qed

lemma drop_takeWhile_take:
  "drop (length (takeWhile P xs)) (take n xs) = dropWhile P (take n xs)"
proof (induction xs arbitrary: n)
  case Nil
  then show ?case by simp
next
  case (Cons x xs)
  then show ?case by (cases n) auto
qed

lemma take_upto_last:
  assumes "c \<in> set r"
  shows "take (nat (str_rfind c r + 1)) r = rev (dropWhile (\<lambda>x. x \<noteq> c) (rev r))"
proof -
  let ?k = "length (takeWhile (\<lambda>x. x \<noteq> c) (rev r))"
  have k: "?k < length r"
    using assms by (rule takeWhile_rev_less)
  have "nat (str_rfind c r + 1) = length r - ?k"
    using assms k by (simp add: str_rfind_conv)
  moreover have "rev (dropWhile (\<lambda>x. x \<noteq> c) (rev r)) = take (length r - ?k) r"
    by (simp add: dropWhile_eq_drop rev_drop)
  ultimately show ?thesis by simp
qed

lemma py_slice_brackets:
  assumes "a \<in> set r" and "b \<in> set r"
  shows "py_slice r (str_find a r) (str_rfind b r + 1)
           = dropWhile (\<lambda>x. x \<noteq> a) (rev (dropWhile (\<lambda>x. x \<noteq> b) (rev r)))"
proof -
  have "nat (str_find a r) = length (takeWhile (\<lambda>x. x \<noteq> a) r)"
    using assms by (simp add: str_find_conv)
  then have "py_slice r (str_find a r) (str_rfind b r + 1)
      = drop (length (takeWhile (\<lambda>x. x \<noteq> a) r)) (take (nat (str_rfind b r + 1)) r)"
    by (simp add: py_slice_def)
  also have "\<dots> = dropWhile (\<lambda>x. x \<noteq> a) (take (nat (str_rfind b r + 1)) r)"
    by (rule drop_takeWhile_take)
  finally show ?thesis using assms by (simp add: take_upto_last)
qed

lemma outcome_Inr: "outcome r = Some x \<longleftrightarrow> r = Inr x"
  by (simp add: outcome_def split: sum.splits)

lemma outcome_None: "outcome r = None \<longleftrightarrow> isl r"
  by (simp add: outcome_def split: sum.splits)

section \<open>Lemmas on effects\<close>

lemma io_bind_Inr: "io_bind (Inr x, t) f = (fst (f x), t @ snd (f x))"
  by (simp add: io_bind_def split: prod.splits)

lemma io_bind_Inl: "io_bind (Inl e, t) f = (Inl e, t)"
  by (simp add: io_bind_def)

lemma io_bind_lift_Inr: "io_bind (io_lift (Inr x)) f = f x"
  by (simp add: io_bind_def io_lift_def split: prod.splits)

lemma io_bind_lift_Inl: "io_bind (io_lift (Inl e)) f = (Inl e, [])"
  by (simp add: io_bind_def io_lift_def)

lemma io_bind_return: "io_bind (io_return x) f = f x"
  by (simp add: io_bind_def io_return_def split: prod.splits)

lemma io_bind_raise: "io_bind (io_raise e) f = (Inl e, [])"
  by (simp add: io_bind_def io_raise_def)

lemma io_bind_print: "io_bind (io_print s) f = (fst (f ()), Print s # snd (f ()))"
  by (simp add: io_bind_def io_print_def split: prod.splits)

lemma io_bind_effect_Inr: "io_bind (io_effect ev (Inr x)) f = (fst (f x), ev # snd (f x))"
  by (simp add: io_bind_def io_effect_def split: prod.splits)

lemma io_bind_effect_Inl: "io_bind (io_effect ev (Inl e)) f = (Inl e, [ev])"
  by (simp add: io_bind_def io_effect_def)

lemma io_except_Inr: "io_except_Exception (Inr x, t) h = (Inr x, t)"
  by (simp add: io_except_Exception_def)

lemma io_except_Inl:
  "io_except_Exception (Inl e, t) h =
     (if isinstance e Exception then (fst (h e), t @ snd (h e)) else (Inl e, t))"
  by (simp add: io_except_Exception_def split: prod.splits)

lemma snd_io_except_raise:
  "snd (io_except_Exception m (\<lambda>e. io_raise (h e))) = snd m"
  by (cases m) (auto simp: io_except_Exception_def io_raise_def split: sum.splits)

section \<open>Response parsing\<close>

lemma openai_validated_tc_normalised: "openai_validated_tc i d = normalised_entry i d"
  by (simp add: openai_validated_tc_def normalised_entry_def six_fields_def dict_get_def
      positional_default_def split: option.splits)

lemma gemini_validated_tc_normalised: "gemini_validated_tc i d = normalised_entry i d"
  by (simp add: gemini_validated_tc_def normalised_entry_def six_fields_def dict_get_def
      positional_default_def split: option.splits)

lemma openai_validate_loop_kept:
  "openai_validate_loop i tcs acc =
     acc @ map (\<lambda>(j, v). normalised_entry j (dict_items v))
             (filter (\<lambda>(j, v). is_dict v) (enumerate i tcs))"
proof (induction tcs arbitrary: i acc)
  case Nil
  then show ?case by simp
next
  case (Cons tc tcs)
  then show ?case by (cases tc) (simp_all add: openai_validated_tc_normalised)
qed

lemma gemini_validate_loop_kept:
  "gemini_validate_loop i tcs acc =
     acc @ map (\<lambda>(j, v). normalised_entry j (dict_items v))
             (filter (\<lambda>(j, v). is_dict v) (enumerate i tcs))"
proof (induction tcs arbitrary: i acc)
  case Nil
  then show ?case by simp
next
  case (Cons tc tcs)
  then show ?case by (cases tc) (simp_all add: gemini_validated_tc_normalised)
qed

lemma openai_parse_try_expected:
  "outcome (openai_parse_try loads r) = expected_testcases loads r"
proof (cases "CHR ''['' \<in> set r \<and> CHR '']'' \<in> set r")
  case True
  then have sl: "py_slice r (str_find (CHR ''['') r) (str_rfind (CHR '']'') r + 1) = bracket_slice r"
    by (simp add: py_slice_brackets bracket_slice_def)
  from True have "str_find (CHR ''['') r \<noteq> - 1" "str_rfind (CHR '']'') r + 1 \<noteq> 0"
    by (simp_all add: str_find_absent str_rfind_absent)
  then show ?thesis using True sl
    by (simp add: openai_parse_try_def expected_testcases_def outcome_def Let_def
        openai_validate_loop_kept kept_entries_def split: sum.splits pyval.splits)
next
  case False
  then have "str_find (CHR ''['') r = - 1 \<or> str_rfind (CHR '']'') r + 1 = 0"
    by (simp add: str_find_absent str_rfind_absent)
  then show ?thesis using False
    by (auto simp: openai_parse_try_def expected_testcases_def outcome_def Let_def)
qed

lemma gemini_parse_try_expected:
  "outcome (gemini_parse_try loads r) = expected_testcases loads r"
proof (cases "CHR ''['' \<in> set r \<and> CHR '']'' \<in> set r")
  case True
  then have sl: "py_slice r (str_find (CHR ''['') r) (str_rfind (CHR '']'') r + 1) = bracket_slice r"
    by (simp add: py_slice_brackets bracket_slice_def)
  from True have "str_find (CHR ''['') r \<noteq> - 1" "str_rfind (CHR '']'') r + 1 \<noteq> 0"
    by (simp_all add: str_find_absent str_rfind_absent)
  then show ?thesis using True sl
    by (simp add: gemini_parse_try_def expected_testcases_def outcome_def Let_def
        gemini_validate_loop_kept kept_entries_def split: sum.splits pyval.splits)
next
  case False
  then have "str_find (CHR ''['') r = - 1 \<or> str_rfind (CHR '']'') r + 1 = 0"
    by (simp add: str_find_absent str_rfind_absent)
  then show ?thesis using False
    by (auto simp: gemini_parse_try_def expected_testcases_def outcome_def Let_def)
qed

lemma openai_parse_response_outcome:
  "outcome (openai_parse_response loads r) = outcome (openai_parse_try loads r)"
  by (simp add: openai_parse_response_def outcome_def split: sum.splits)

lemma gemini_parse_response_outcome:
  "outcome (gemini_parse_response loads r) = outcome (gemini_parse_try loads r)"
  by (simp add: gemini_parse_response_def outcome_def split: sum.splits)

lemma kept_entries_fields: "tc \<in> set (kept_entries arr) \<Longrightarrow> map fst tc = six_fields"
  by (auto simp: kept_entries_def normalised_entry_def comp_def)

lemma normalised_entry_lookup:
  "k \<in> set six_fields \<Longrightarrow>
     map_of (normalised_entry i d) k
       = Some (case map_of d k of Some v \<Rightarrow> v | None \<Rightarrow> positional_default k i)"
  by (auto simp: normalised_entry_def six_fields_def)

lemma expected_testcases0: "expected_testcases loads0 response0 = Some testcases0"
  by (simp add: expected_testcases_def response0_def bracket_slice_def loads0_def kept_entries_def
      enumerate_eq_zip normalised_entry_def six_fields_def positional_default_def format_03d_def
      str_nat.simps digit_char_def upt_rec testcases0_def eval_nat_numeral)

lemma expected_testcases_no_array: "expected_testcases loads0 ''I cannot help with that.'' = None"
  by (simp add: expected_testcases_def)

text \<open>
  Claim C1. For every response string, \<^verbatim>\<open>_parse_response\<close> of either engine raises exactly
  when the string has no \<^verbatim>\<open>[\<close> or no \<^verbatim>\<open>]\<close>, or \<^verbatim>\<open>json.loads\<close> fails on the text from the
  first \<^verbatim>\<open>[\<close> to the last \<^verbatim>\<open>]\<close>, or that text does not parse to a list. Otherwise it returns
  the dictionaries of the parsed array in their order, the other entries dropped, each
  turned into a dictionary with exactly the six fields \<^verbatim>\<open>feature\<close>, \<^verbatim>\<open>test_id\<close>, \<^verbatim>\<open>title\<close>,
  \<^verbatim>\<open>steps\<close>, \<^verbatim>\<open>expected_result\<close>, \<^verbatim>\<open>priority\<close>, where a field missing in the entry at index
  \<open>i\<close> gets its positional default (\<^verbatim>\<open>Feature i+1\<close>, \<^verbatim>\<open>TC\<close> and \<open>i+1\<close> padded with zeros to three
  digits, \<^verbatim>\<open>Test Case i+1\<close>, the empty list, the empty string, \<^verbatim>\<open>Medium\<close>).
\<close>

theorem parse_response_normalises:
  "outcome (openai_parse_response loads r) = expected_testcases loads r
   \<and> outcome (gemini_parse_response loads r) = expected_testcases loads r
   \<and> (expected_testcases loads r = None \<longrightarrow>
        isl (openai_parse_response loads r) \<and> isl (gemini_parse_response loads r))
   \<and> (\<forall>tcs. openai_parse_response loads r = Inr tcs \<or> gemini_parse_response loads r = Inr tcs
        \<longrightarrow> (\<forall>tc \<in> set tcs. map fst tc = six_fields))
   \<and> (\<forall>k \<in> set six_fields.
        map_of (normalised_entry i d) k
          = Some (case map_of d k of Some v \<Rightarrow> v | None \<Rightarrow> positional_default k i))"
proof -
  have o: "outcome (openai_parse_response loads r) = expected_testcases loads r"
    by (simp add: openai_parse_response_outcome openai_parse_try_expected)
  have g: "outcome (gemini_parse_response loads r) = expected_testcases loads r"
    by (simp add: gemini_parse_response_outcome gemini_parse_try_expected)
  have fields: "\<forall>tc \<in> set tcs. map fst tc = six_fields"
    if "openai_parse_response loads r = Inr tcs \<or> gemini_parse_response loads r = Inr tcs" for tcs
  proof -
    from that o g have "expected_testcases loads r = Some tcs"
      by (auto simp: outcome_Inr [symmetric])
    then obtain arr where "tcs = kept_entries arr"
      by (auto simp: expected_testcases_def split: if_splits sum.splits pyval.splits)
    then show ?thesis by (simp add: kept_entries_fields)
  qed
  from o g have "expected_testcases loads r = None \<longrightarrow>
        isl (openai_parse_response loads r) \<and> isl (gemini_parse_response loads r)"
    by (metis outcome_None)
  with o g fields show ?thesis
    by (simp add: normalised_entry_lookup)
qed

theorem parse_response_normalises_witness:
  "openai_parse_response loads0 response0 = Inr testcases0
   \<and> gemini_parse_response loads0 response0 = Inr testcases0
   \<and> isl (openai_parse_response loads0 ''I cannot help with that.'')
   \<and> isl (gemini_parse_response loads0 ''I cannot help with that.'')
   \<and> map (map fst) testcases0 = [six_fields, six_fields]
   \<and> map_of (normalised_entry 2 []) ''test_id'' = Some (PStr ''TC003'')
   \<and> map_of (normalised_entry 0 [(''title'', PStr ''Login'')]) ''title'' = Some (PStr ''Login'')"
proof -
  note a = parse_response_normalises [of loads0 response0 2 "[]"]
  note b = parse_response_normalises [of loads0 "''I cannot help with that.''" 0
      "[(''title'', PStr ''Login'')]"]
  have id: "positional_default ''test_id'' 2 = PStr ''TC003''"
    by (simp add: positional_default_def format_03d_def str_nat.simps digit_char_def
        eval_nat_numeral)
  from a have a1: "openai_parse_response loads0 response0 = Inr testcases0"
    and a2: "gemini_parse_response loads0 response0 = Inr testcases0"
    by (simp_all add: expected_testcases0 outcome_Inr)
  from a a1 have "\<forall>tc \<in> set testcases0. map fst tc = six_fields"
    by blast
  then have a3: "map (map fst) testcases0 = [six_fields, six_fields]"
    by (simp add: testcases0_def)
  from a have a4: "map_of (normalised_entry 2 []) ''test_id'' = Some (PStr ''TC003'')"
    by (simp add: six_fields_def id)
  from b have b1: "isl (openai_parse_response loads0 ''I cannot help with that.'')"
    and b2: "isl (gemini_parse_response loads0 ''I cannot help with that.'')"
    by (simp_all add: expected_testcases_no_array)
  from b have b3: "map_of (normalised_entry 0 [(''title'', PStr ''Login'')]) ''title''
      = Some (PStr ''Login'')"
    by (simp add: six_fields_def)
  from a1 a2 a3 a4 b1 b2 b3 show ?thesis by simp
qed

lemma validate_loops_agree:
  "openai_validate_loop i tcs acc = gemini_validate_loop i tcs acc"
  by (simp add: openai_validate_loop_kept gemini_validate_loop_kept)

lemma parse_try_agree: "openai_parse_try loads r = gemini_parse_try loads r"
  unfolding openai_parse_try_def gemini_parse_try_def validate_loops_agree by (rule refl)

text \<open>
  Claim C3. The two engines process a response alike: on every response string the two
  \<^verbatim>\<open>_parse_response\<close> methods either return the same list or both raise (the two
  exceptions differ in the engine named in the message, and only there); and on every
  requirement text the two \<^verbatim>\<open>_build_prompt\<close> methods give the same prompt.
\<close>

theorem engines_agree:
  "outcome (openai_parse_response loads r) = outcome (gemini_parse_response loads r)
   \<and> openai_build_prompt self_o requirement_text = gemini_build_prompt self_g requirement_text"
proof -
  have "outcome (openai_parse_response loads r) = outcome (gemini_parse_response loads r)"
    by (simp add: openai_parse_response_outcome gemini_parse_response_outcome parse_try_agree)
  moreover have
    "openai_build_prompt self_o requirement_text = gemini_build_prompt self_g requirement_text"
    unfolding openai_build_prompt_def gemini_build_prompt_def by (rule refl)
  ultimately show ?thesis by simp
qed

theorem engines_agree_witness:
  "outcome (openai_parse_response loads0 response0) = Some testcases0
   \<and> outcome (gemini_parse_response loads0 response0) = Some testcases0
   \<and> openai_parse_response loads0 ''I cannot help with that.''
       = Inl (Exc Exception ''Error parsing OpenAI response: No JSON array found in response'')
   \<and> gemini_parse_response loads0 ''I cannot help with that.''
       = Inl (Exc Exception ''Error parsing Gemini response: No JSON array found in response'')
   \<and> openai_build_prompt engine0 ''Users log in.'' = gemini_build_prompt gemini0 ''Users log in.''"
proof -
  have o: "outcome (openai_parse_response loads0 response0) = Some testcases0"
    by (simp add: openai_parse_response_outcome openai_parse_try_expected expected_testcases0)
  have e1: "openai_parse_response loads0 ''I cannot help with that.''
       = Inl (Exc Exception ''Error parsing OpenAI response: No JSON array found in response'')"
    by (simp add: openai_parse_response_def openai_parse_try_def)
  have e2: "gemini_parse_response loads0 ''I cannot help with that.''
       = Inl (Exc Exception ''Error parsing Gemini response: No JSON array found in response'')"
    by (simp add: gemini_parse_response_def gemini_parse_try_def)
  from o e1 e2 engines_agree [of loads0 response0 engine0 "''Users log in.''" gemini0]
  show ?thesis by simp
qed

section \<open>Test-case generation\<close>

lemma openai_events:
  "snd (fst (openai_generate_testcases env self mods text)) =
     [ChatCompletionsCreate
        \<lparr>request_client = self_client self, request_model = self_model self,
         request_messages = [(''system'', openai_system_message),
                             (''user'', openai_build_prompt self text)],
         request_temperature = ''0.3''\<rparr>]"
proof -
  have "snd (io_bind (io_effect ev r) f) = [ev]"
    if "\<And>x. snd (f x) = []" for ev :: event and r :: "exn + chat_response"
      and f :: "chat_response \<Rightarrow> pydict list io"
    using that by (cases r) (simp_all add: io_bind_effect_Inr io_bind_effect_Inl)
  moreover have "snd (case response of ChatResponse choices \<Rightarrow>
                   (case choices of
                      [] \<Rightarrow> io_raise (Exc IndexError ''list index out of range'')
                    | choice # _ \<Rightarrow>
                        (case choice of
                           None \<Rightarrow>
                             io_raise (Exc Exception (''Error parsing OpenAI response: ''
                               @ exc_str (no_attribute ''NoneType'' ''find'')))
                         | Some content \<Rightarrow>
                             io_lift (openai_parse_response (json_loads env) content)))) = []"
    for response
    by (simp add: io_raise_def io_lift_def split: chat_response.splits list.splits option.splits)
  ultimately show ?thesis
    by (simp add: openai_generate_testcases_def Let_def snd_io_except_raise)
qed

lemma gemini_events:
  "snd (fst (gemini_generate_testcases env self mods text)) =
     [GenerateContent (self_gemini_model self) (gemini_build_prompt self text)]"
proof -
  have "snd (io_bind (io_effect ev r) f) = [ev]"
    if "\<And>x. snd (f x) = []" for ev :: event and r :: "exn + gemini_response"
      and f :: "gemini_response \<Rightarrow> pydict list io"
    using that by (cases r) (simp_all add: io_bind_effect_Inr io_bind_effect_Inl)
  moreover have "snd (case response of
                 GeminiResponse text \<Rightarrow>
                   io_bind (io_lift text)
                     (\<lambda>content. io_lift (gemini_parse_response (json_loads env) content))) = []"
    for response
    by (simp add: io_bind_def io_lift_def split: gemini_response.splits sum.splits)
  ultimately show ?thesis
    by (simp add: gemini_generate_testcases_def Let_def snd_io_except_raise)
qed

lemma openai_frame: "snd (openai_generate_testcases env self mods text) = (self, mods)"
  by (simp add: openai_generate_testcases_def Let_def)

lemma gemini_frame: "snd (gemini_generate_testcases env self mods text) = (self, mods)"
  by (simp add: gemini_generate_testcases_def Let_def)

lemma openai_api_down:
  "fst (fst (openai_generate_testcases env_api_down engine0 mods0 ''Users log in.''))
     = Inl (Exc Exception ''Error calling OpenAI API: Connection error.'')"
  by (simp add: openai_generate_testcases_def env_api_down_def env0_def Let_def
      io_bind_effect_Inl io_except_Inl io_raise_def)

lemma openai_bad_answer:
  "fst (fst (openai_generate_testcases env_bad_answer engine0 mods0 ''Users log in.''))
     = Inl (Exc Exception
         ''Error calling OpenAI API: Error parsing OpenAI response: No JSON array found in response'')"
  by (simp add: openai_generate_testcases_def env_bad_answer_def env0_def Let_def
      io_bind_effect_Inr io_except_Inl io_raise_def io_lift_def
      openai_parse_response_def openai_parse_try_def)

lemma gemini_bad_answer:
  "fst (fst (gemini_generate_testcases env_bad_answer gemini0 mods0 ''Users log in.''))
     = Inl (Exc Exception
         ''Error calling Gemini API: Error parsing Gemini response: No JSON array found in response'')"
  by (simp add: gemini_generate_testcases_def env_bad_answer_def env0_def Let_def
      io_bind_def io_effect_def io_except_Exception_def io_raise_def io_lift_def
      gemini_parse_response_def gemini_parse_try_def)

text \<open>
  Claim C7. A call of \<^verbatim>\<open>generate_testcases\<close> makes exactly one call of the API, whatever the
  API and the parser do: its events are the one \<^verbatim>\<open>chat.completions.create\<close> request of the
  OpenAI engine, or the one \<^verbatim>\<open>generate_content\<close> request of the Gemini engine, carrying the
  prompt built from the requirement text. No second request follows a failed request or a
  failed parse. (Retries inside the client libraries are below this model.)
\<close>

theorem one_request_per_call:
  "snd (fst (openai_generate_testcases env self mods text)) =
     [ChatCompletionsCreate
        \<lparr>request_client = self_client self, request_model = self_model self,
         request_messages = [(''system'', openai_system_message),
                             (''user'', openai_build_prompt self text)],
         request_temperature = ''0.3''\<rparr>]
   \<and> snd (fst (gemini_generate_testcases env self_g mods text)) =
     [GenerateContent (self_gemini_model self_g) (gemini_build_prompt self_g text)]"
  by (simp add: openai_events gemini_events)

theorem one_request_per_call_witness:
  "length (snd (fst (openai_generate_testcases env_api_down engine0 mods0 ''Users log in.''))) = 1
   \<and> fst (fst (openai_generate_testcases env_api_down engine0 mods0 ''Users log in.''))
       = Inl (Exc Exception ''Error calling OpenAI API: Connection error.'')
   \<and> length (snd (fst (openai_generate_testcases env_bad_answer engine0 mods0 ''Users log in.''))) = 1
   \<and> fst (fst (openai_generate_testcases env_bad_answer engine0 mods0 ''Users log in.''))
       = Inl (Exc Exception
           ''Error calling OpenAI API: Error parsing OpenAI response: No JSON array found in response'')
   \<and> length (snd (fst (gemini_generate_testcases env_bad_answer gemini0 mods0 ''Users log in.''))) = 1
   \<and> fst (fst (gemini_generate_testcases env_bad_answer gemini0 mods0 ''Users log in.''))
       = Inl (Exc Exception
           ''Error calling Gemini API: Error parsing Gemini response: No JSON array found in response'')"
  using one_request_per_call [of env_api_down engine0 mods0 "''Users log in.''" gemini0]
    one_request_per_call [of env_bad_answer engine0 mods0 "''Users log in.''" gemini0]
  by (simp add: openai_api_down openai_bad_answer gemini_bad_answer)

text \<open>
  Claim C10. \<^verbatim>\<open>generate_testcases\<close> leaves the engine object and the module variables as
  they were: the fields \<^verbatim>\<open>client\<close> and \<^verbatim>\<open>model\<close> of an OpenAI engine, the field
  \<^verbatim>\<open>model\<close> of a Gemini engine and the four availability flags are the same after the call,
  so a second call starts from the state the first one started from.
\<close>

theorem generate_testcases_frame:
  "snd (openai_generate_testcases env self mods text) = (self, mods)
   \<and> snd (gemini_generate_testcases env self_g mods text) = (self_g, mods)
   \<and> (case snd (openai_generate_testcases env self mods text) of
         (self', mods') \<Rightarrow>
           openai_generate_testcases env2 self' mods' text2
             = openai_generate_testcases env2 self mods text2)
   \<and> (case snd (gemini_generate_testcases env self_g mods text) of
         (self', mods') \<Rightarrow>
           gemini_generate_testcases env2 self' mods' text2
             = gemini_generate_testcases env2 self_g mods text2)"
  by (simp add: openai_frame gemini_frame)

theorem generate_testcases_frame_witness:
  "snd (openai_generate_testcases env_api_down engine0 mods0 ''Users log in.'') = (engine0, mods0)
   \<and> snd (openai_generate_testcases env0 engine0 mods0 ''Users log in.'') = (engine0, mods0)
   \<and> snd (gemini_generate_testcases env_bad_answer gemini0 mods0 ''Users log in.'') = (gemini0, mods0)"
  using generate_testcases_frame [of env_api_down engine0 mods0 "''Users log in.''" gemini0 env0 "[]"]
    generate_testcases_frame [of env0 engine0 mods0 "''Users log in.''" gemini0 env0 "[]"]
    generate_testcases_frame [of env_bad_answer engine0 mods0 "''Users log in.''" gemini0 env0 "[]"]
  by simp

section \<open>Text extraction\<close>

lemma isinstance_Exception: "isinstance e c \<Longrightarrow> isinstance e Exception"
  by (cases e) simp_all

lemma pdf_not_ValueError: "\<not> raises (extract_text_from_pdf env mods p) ValueError"
  by (auto simp: extract_text_from_pdf_def raises_def split: sum.splits
      dest: isinstance_Exception)

lemma docx_not_ValueError: "\<not> raises (extract_text_from_docx env mods p) ValueError"
  by (auto simp: extract_text_from_docx_def raises_def split: sum.splits
      dest: isinstance_Exception)

lemma txt_not_ValueError: "\<not> raises (extract_text_from_txt env p) ValueError"
  by (auto simp: extract_text_from_txt_def raises_def split: sum.splits
      dest: isinstance_Exception)

lemma open_and_read_suffix:
  "open_and_read (env\<lparr>path_suffix := f\<rparr>) p enc = open_and_read env p enc"
  by (simp add: open_and_read_def split: sum.splits)

lemma pdf_suffix:
  "extract_text_from_pdf (env\<lparr>path_suffix := f\<rparr>) mods p = extract_text_from_pdf env mods p"
  by (simp add: extract_text_from_pdf_def)

lemma docx_suffix:
  "extract_text_from_docx (env\<lparr>path_suffix := f\<rparr>) mods p = extract_text_from_docx env mods p"
  by (simp add: extract_text_from_docx_def)

lemma txt_suffix:
  "extract_text_from_txt (env\<lparr>path_suffix := f\<rparr>) p = extract_text_from_txt env p"
  unfolding extract_text_from_txt_def open_and_read_suffix by (rule refl)

lemma str_lower_PDF: "str_lower ''.PDF'' = ''.pdf''"
  by (simp add: str_lower_def char_lower_def)

lemma str_lower_TXT: "str_lower ''.TXT'' = ''.txt''"
  by (simp add: str_lower_def char_lower_def)

text \<open>
  Claim C9. \<^verbatim>\<open>extract_text_from_file\<close> chooses the reader by the lowercased suffix of the
  path, so two suffixes that differ in case only are treated alike and \<^verbatim>\<open>.PDF\<close> goes to the
  PDF reader; it raises \<^verbatim>\<open>ValueError\<close> exactly when the lowercased suffix is none of
  \<^verbatim>\<open>.pdf\<close>, \<^verbatim>\<open>.docx\<close>, \<^verbatim>\<open>.txt\<close>. For a text file the UTF-8 reading is returned when
  it succeeds, the latin-1 reading is tried when the first one raises
  \<^verbatim>\<open>UnicodeDecodeError\<close>, and any other failure of the first reading is raised.
\<close>

theorem extract_text_dispatch:
  "(str_lower (path_suffix env p) = ''.pdf'' \<longrightarrow>
      extract_text_from_file env mods p = extract_text_from_pdf env mods p)
   \<and> (str_lower (path_suffix env p) = ''.docx'' \<longrightarrow>
      extract_text_from_file env mods p = extract_text_from_docx env mods p)
   \<and> (str_lower (path_suffix env p) = ''.txt'' \<longrightarrow>
      extract_text_from_file env mods p = extract_text_from_txt env p)
   \<and> (path_suffix env p = ''.PDF'' \<longrightarrow>
      extract_text_from_file env mods p = extract_text_from_pdf env mods p)
   \<and> (str_lower s1 = str_lower s2 \<longrightarrow>
      extract_text_from_file (env\<lparr>path_suffix := \<lambda>q. s1\<rparr>) mods p
        = extract_text_from_file (env\<lparr>path_suffix := \<lambda>q. s2\<rparr>) mods p)
   \<and> (raises (extract_text_from_file env mods p) ValueError
        \<longleftrightarrow> str_lower (path_suffix env p) \<notin> {''.pdf'', ''.docx'', ''.txt''})
   \<and> (open_and_read env p ''utf-8'' = Inr t \<longrightarrow> extract_text_from_txt env p = Inr t)
   \<and> (open_and_read env p ''utf-8'' = Inl e \<and> isinstance e UnicodeDecodeError
        \<and> open_and_read env p ''latin-1'' = Inr t \<longrightarrow> extract_text_from_txt env p = Inr t)
   \<and> (open_and_read env p ''utf-8'' = Inl e \<and> \<not> isinstance e UnicodeDecodeError
        \<longrightarrow> isl (extract_text_from_txt env p))"
proof -
  have f_pdf: "str_lower (path_suffix env p) = ''.pdf'' \<longrightarrow>
      extract_text_from_file env mods p = extract_text_from_pdf env mods p"
    by (simp add: extract_text_from_file_def Let_def)
  have f_docx: "str_lower (path_suffix env p) = ''.docx'' \<longrightarrow>
      extract_text_from_file env mods p = extract_text_from_docx env mods p"
    by (simp add: extract_text_from_file_def Let_def)
  have f_txt: "str_lower (path_suffix env p) = ''.txt'' \<longrightarrow>
      extract_text_from_file env mods p = extract_text_from_txt env p"
    by (simp add: extract_text_from_file_def Let_def)
  have upper: "path_suffix env p = ''.PDF'' \<longrightarrow>
      extract_text_from_file env mods p = extract_text_from_pdf env mods p"
    by (simp add: extract_text_from_file_def Let_def str_lower_PDF)
  have insens: "str_lower s1 = str_lower s2 \<longrightarrow>
      extract_text_from_file (env\<lparr>path_suffix := \<lambda>q. s1\<rparr>) mods p
        = extract_text_from_file (env\<lparr>path_suffix := \<lambda>q. s2\<rparr>) mods p"
    by (simp add: extract_text_from_file_def Let_def pdf_suffix docx_suffix txt_suffix)
  have verr: "raises (extract_text_from_file env mods p) ValueError
        \<longleftrightarrow> str_lower (path_suffix env p) \<notin> {''.pdf'', ''.docx'', ''.txt''}"
    using pdf_not_ValueError [of env mods p] docx_not_ValueError [of env mods p]
      txt_not_ValueError [of env p]
    by (simp add: extract_text_from_file_def Let_def) (simp add: raises_def)
  have utf8: "open_and_read env p ''utf-8'' = Inr t \<longrightarrow> extract_text_from_txt env p = Inr t"
    by (simp add: extract_text_from_txt_def)
  have latin1: "open_and_read env p ''utf-8'' = Inl e \<and> isinstance e UnicodeDecodeError
        \<and> open_and_read env p ''latin-1'' = Inr t \<longrightarrow> extract_text_from_txt env p = Inr t"
    by (simp add: extract_text_from_txt_def)
  have other: "open_and_read env p ''utf-8'' = Inl e \<and> \<not> isinstance e UnicodeDecodeError
        \<longrightarrow> isl (extract_text_from_txt env p)"
    by (simp add: extract_text_from_txt_def)
  from f_pdf f_docx f_txt upper insens verr utf8 latin1 other show ?thesis
    by blast
qed

lemma utf8_fails0:
  "open_and_read env0 ''req.TXT'' ''utf-8'' = Inl (Exc UnicodeDecodeError ''invalid start byte'')"
  by (simp add: open_and_read_def env0_def)

lemma latin1_reads0: "open_and_read env0 ''req.TXT'' ''latin-1'' = Inr ''Users log in.''"
  by (simp add: open_and_read_def env0_def)

lemma suffix0: "path_suffix env0 ''req.TXT'' = ''.TXT''"
  by (simp add: env0_def)

theorem extract_text_dispatch_witness:
  "extract_text_from_file env0 mods0 ''req.TXT'' = Inr ''Users log in.''
   \<and> extract_text_from_file (env0\<lparr>path_suffix := \<lambda>q. ''.PDF''\<rparr>) mods0 ''req.TXT''
       = Inr ''page one\<newline>page two\<newline>''
   \<and> extract_text_from_file (env0\<lparr>path_suffix := \<lambda>q. ''.pdf''\<rparr>) mods0 ''req.TXT''
       = Inr ''page one\<newline>page two\<newline>''
   \<and> extract_text_from_file env0 mods0 ''config.yaml''
       = Inl (Exc ValueError ''Unsupported file format: .yaml. Supported formats: .pdf, .docx, .txt'')
   \<and> raises (extract_text_from_file env0 mods0 ''config.yaml'') ValueError"
proof -
  note a = extract_text_dispatch [of env0 "''req.TXT''" mods0 "''.PDF''" "''.pdf''"
      "''Users log in.''" "Exc UnicodeDecodeError ''invalid start byte''"]
  note b = extract_text_dispatch [of "env0\<lparr>path_suffix := \<lambda>q. ''.PDF''\<rparr>" "''req.TXT''" mods0
      "''.PDF''" "''.pdf''" "''Users log in.''" "Exc UnicodeDecodeError ''invalid start byte''"]
  note c = extract_text_dispatch [of env0 "''config.yaml''" mods0 "''.PDF''" "''.pdf''" "[]"
      "Exc UnicodeDecodeError ''invalid start byte''"]
  have pdf: "extract_text_from_pdf (env0\<lparr>path_suffix := \<lambda>q. ''.PDF''\<rparr>) mods0 ''req.TXT''
      = Inr ''page one\<newline>page two\<newline>''"
    by (simp add: extract_text_from_pdf_def env0_def mods0_def)
  from a have a1: "extract_text_from_file env0 mods0 ''req.TXT'' = Inr ''Users log in.''"
    by (simp add: suffix0 str_lower_TXT utf8_fails0 latin1_reads0)
  from b have b1: "extract_text_from_file (env0\<lparr>path_suffix := \<lambda>q. ''.PDF''\<rparr>) mods0 ''req.TXT''
       = Inr ''page one\<newline>page two\<newline>''"
    by (simp add: pdf)
  from a b1 have a2: "extract_text_from_file (env0\<lparr>path_suffix := \<lambda>q. ''.pdf''\<rparr>) mods0 ''req.TXT''
       = Inr ''page one\<newline>page two\<newline>''"
    by (simp add: str_lower_PDF str_lower_def char_lower_def)
  have low: "str_lower (path_suffix env0 ''config.yaml'') = ''.yaml''"
    by (simp add: env0_def str_lower_def char_lower_def)
  from c have c1: "raises (extract_text_from_file env0 mods0 ''config.yaml'') ValueError"
    by (simp add: low)
  have c2: "extract_text_from_file env0 mods0 ''config.yaml''
       = Inl (Exc ValueError ''Unsupported file format: .yaml. Supported formats: .pdf, .docx, .txt'')"
    by (simp add: extract_text_from_file_def Let_def low)
  from a1 b1 a2 c1 c2 show ?thesis by simp
qed

section \<open>The export\<close>

lemma rows_loop_map: "rows_loop env tcs rows = rows @ map (make_row env) tcs"
  by (induction tcs arbitrary: rows) simp_all

lemma numbered_steps_lines: "numbered_steps env steps = step_lines env steps"
  by (rule nth_equalityI)
    (simp_all add: numbered_steps_def step_lines_def nth_enumerate_eq del: upt_Suc)

lemma make_row_steps:
  "map_of tc ''steps'' = Some (PList steps) \<Longrightarrow>
     map_of (make_row env tc) ''Test Steps''
       = Some (PStr (str_join ''\<newline>'' (step_lines env steps)))"
  by (simp add: make_row_def dict_get_def numbered_steps_lines)

lemma make_row_constants:
  "map_of (make_row env tc) ''Status'' = Some (PStr ''Not Executed'')
   \<and> map_of (make_row env tc) ''Actual Result'' = Some (PStr [])
   \<and> map_of (make_row env tc) ''Notes'' = Some (PStr [])"
  by (simp add: make_row_def Let_def)

lemma make_row_priority:
  "map_of tc ''priority'' = None \<Longrightarrow>
     map_of (make_row env tc) ''Priority'' = Some (PStr ''Medium'')"
  by (simp add: make_row_def Let_def dict_get_def)

lemma save_empty:
  "save_testcases_to_excel env [] output_path
     = (Inl (Exc ValueError ''No test cases to export''), [])"
  by (simp add: save_testcases_to_excel_def io_raise_def)

lemma save_nonempty:
  "testcases \<noteq> [] \<Longrightarrow>
     save_testcases_to_excel env testcases output_path =
       (case mkdir_parent env output_path of
          Inl e \<Rightarrow> (Inl e, [Mkdir output_path])
        | Inr u \<Rightarrow>
            (case excel_write env output_path (map (make_row env) testcases) of
               Inl e \<Rightarrow>
                 (Inl e, [Mkdir output_path,
                          ExcelWrite output_path (map (make_row env) testcases)])
             | Inr u' \<Rightarrow>
                 (Inr (), [Mkdir output_path,
                           ExcelWrite output_path (map (make_row env) testcases),
                           Print (check_mark @ '' Excel file saved successfully: ''
                             @ path_str env output_path)])))"
  by (simp add: save_testcases_to_excel_def Let_def rows_loop_map io_bind_def io_effect_def
      io_print_def split: sum.splits)

text \<open>
  Claim C6. \<^verbatim>\<open>save_testcases_to_excel\<close> builds one row per test case, in order. In every
  row the column \<^verbatim>\<open>Status\<close> is \<^verbatim>\<open>Not Executed\<close> and the columns \<^verbatim>\<open>Actual Result\<close> and
  \<^verbatim>\<open>Notes\<close> are empty strings; \<^verbatim>\<open>Priority\<close> is \<^verbatim>\<open>Medium\<close> when the test case has no
  priority; steps given as a list become the lines \<^verbatim>\<open>1. ...\<close>, \<^verbatim>\<open>2. ...\<close>, and so on, joined
  by newlines. The rows are what is written to the workbook. On the empty list the function
  raises \<^verbatim>\<open>ValueError\<close> and has done nothing.
\<close>

theorem excel_rows:
  "rows_loop env testcases [] = map (make_row env) testcases
   \<and> map_of (make_row env tc) ''Status'' = Some (PStr ''Not Executed'')
   \<and> map_of (make_row env tc) ''Actual Result'' = Some (PStr [])
   \<and> map_of (make_row env tc) ''Notes'' = Some (PStr [])
   \<and> (map_of tc ''priority'' = None \<longrightarrow>
        map_of (make_row env tc) ''Priority'' = Some (PStr ''Medium''))
   \<and> (map_of tc ''steps'' = Some (PList steps) \<longrightarrow>
        map_of (make_row env tc) ''Test Steps''
          = Some (PStr (str_join ''\<newline>'' (step_lines env steps))))
   \<and> save_testcases_to_excel env [] output_path
        = (Inl (Exc ValueError ''No test cases to export''), [])
   \<and> (testcases \<noteq> [] \<longrightarrow>
        save_testcases_to_excel env testcases output_path =
          (case mkdir_parent env output_path of
             Inl e \<Rightarrow> (Inl e, [Mkdir output_path])
           | Inr u \<Rightarrow>
               (case excel_write env output_path (map (make_row env) testcases) of
                  Inl e \<Rightarrow>
                    (Inl e, [Mkdir output_path,
                             ExcelWrite output_path (map (make_row env) testcases)])
                | Inr u' \<Rightarrow>
                    (Inr (), [Mkdir output_path,
                              ExcelWrite output_path (map (make_row env) testcases),
                              Print (check_mark @ '' Excel file saved successfully: ''
                                @ path_str env output_path)]))))"
  using make_row_constants [of env tc] make_row_priority [of tc env]
    make_row_steps [of tc steps env] save_nonempty [of testcases env output_path]
  by (simp add: rows_loop_map save_empty)

lemma step_lines0:
  "str_join ''\<newline>'' (step_lines env0 [PStr ''Open the page'', PInt 7])
     = ''1. Open the page\<newline>2. 7''"
  by (simp add: step_lines_def upt_rec str_nat.simps digit_char_def str_int_def)

lemma make_row0: "make_row env0 tc0 = row0"
  by (simp add: make_row_def tc0_def row0_def dict_get_def numbered_steps_lines step_lines0)

theorem excel_rows_witness:
  "map_of (make_row env0 tc0) ''Priority'' = Some (PStr ''Medium'')
   \<and> map_of (make_row env0 tc0) ''Test Steps'' = Some (PStr ''1. Open the page\<newline>2. 7'')
   \<and> map_of (make_row env0 tc0) ''Status'' = Some (PStr ''Not Executed'')
   \<and> rows_loop env0 [tc0, tc0] [] = [row0, row0]
   \<and> save_testcases_to_excel env0 [] ''out.xlsx''
        = (Inl (Exc ValueError ''No test cases to export''), [])
   \<and> save_testcases_to_excel env0 [tc0, tc0] ''out.xlsx''
        = (Inr (), [Mkdir ''out.xlsx'', ExcelWrite ''out.xlsx'' [row0, row0],
                    Print (check_mark @ '' Excel file saved successfully: out.xlsx'')])"
proof -
  note a = excel_rows [of env0 "[tc0, tc0]" tc0 "[PStr ''Open the page'', PInt 7]" "''out.xlsx''"]
  have p: "map_of tc0 ''priority'' = None"
    and s: "map_of tc0 ''steps'' = Some (PList [PStr ''Open the page'', PInt 7])"
    by (simp_all add: tc0_def)
  have w: "mkdir_parent env0 ''out.xlsx'' = Inr ()" "excel_write env0 ''out.xlsx'' rows = Inr ()"
    "path_str env0 ''out.xlsx'' = ''out.xlsx''" for rows
    by (simp_all add: env0_def)
  from a p s w show ?thesis
    by (simp add: step_lines0 make_row0)
qed

section \<open>The pipeline of \<^verbatim>\<open>main\<close>\<close>

lemma io_bind_print_exit:
  "io_bind (io_print s) (\<lambda>u. sys_exit n) = (Inl (SystemExit n), [Print s])"
  by (simp add: io_bind_def io_print_def sys_exit_def io_raise_def)

lemma main_of_try:
  "path_exists env (args_input_file args) \<Longrightarrow>
     main env mods args =
       (case main_try env mods args of
          (Inl e, t) \<Rightarrow> handled e (reading_line args # t)
        | (Inr u, t) \<Rightarrow> (Inr u, reading_line args # t))"
  by (simp add: main_def io_bind_def io_print_def io_except_Exception_def sys_exit_def
      io_raise_def handled_def reading_line_def split: prod.splits sum.splits)

lemma main_no_input:
  "\<not> path_exists env (args_input_file args) \<Longrightarrow> fst (main env mods args) = Inl (SystemExit 1)"
  by (simp add: main_def io_bind_def io_print_def sys_exit_def io_raise_def)

lemma get_ai_engine_dict:
  "get_ai_engine env mods config = (Inr engine, t) \<Longrightarrow> \<exists>cfg. config = PDict cfg"
  by (cases config) (simp_all add: get_ai_engine_def io_raise_def)

lemma try_extract:
  "extract_text_from_file env mods (args_input_file args) = Inl e \<Longrightarrow>
     main_try env mods args = (Inl e, [])"
  by (simp add: main_try_def io_bind_lift_Inl)

lemma try_blank:
  "extract_text_from_file env mods (args_input_file args) = Inr text \<Longrightarrow>
   str_strip env text = [] \<Longrightarrow>
     fst (main_try env mods args) = Inl (SystemExit 1)"
  by (simp add: main_try_def io_bind_lift_Inr io_bind_print_exit io_bind_Inl)

lemma try_config:
  "extract_text_from_file env mods (args_input_file args) = Inr text \<Longrightarrow>
   str_strip env text \<noteq> [] \<Longrightarrow>
   load_config env (args_config args) = (Inl e, t2) \<Longrightarrow>
     main_try env mods args = (Inl e, extracted_line text # t2)"
  by (simp add: main_try_def io_bind_lift_Inr io_bind_return io_bind_print io_bind_Inl
      extracted_line_def)

lemma try_engine:
  "extract_text_from_file env mods (args_input_file args) = Inr text \<Longrightarrow>
   str_strip env text \<noteq> [] \<Longrightarrow>
   load_config env (args_config args) = (Inr config, t2) \<Longrightarrow>
   get_ai_engine env mods config = (Inl e, t3) \<Longrightarrow>
     main_try env mods args = (Inl e, extracted_line text # t2 @ t3)"
  by (simp add: main_try_def io_bind_lift_Inr io_bind_return io_bind_print io_bind_Inl
      io_bind_Inr extracted_line_def)

lemma try_generate:
  "extract_text_from_file env mods (args_input_file args) = Inr text \<Longrightarrow>
   str_strip env text \<noteq> [] \<Longrightarrow>
   load_config env (args_config args) = (Inr (PDict cfg), t2) \<Longrightarrow>
   get_ai_engine env mods (PDict cfg) = (Inr engine, t3) \<Longrightarrow>
   generate_testcases env mods engine text = (Inl e, t4) \<Longrightarrow>
     main_try env mods args =
       (Inl e, extracted_line text # t2 @ t3 @ [using_line env cfg, generating_line] @ t4)"
  by (simp add: main_try_def io_bind_lift_Inr io_bind_return io_bind_print io_bind_Inl
      io_bind_Inr extracted_line_def using_line_def generating_line_def)

lemma try_no_testcases:
  "extract_text_from_file env mods (args_input_file args) = Inr text \<Longrightarrow>
   str_strip env text \<noteq> [] \<Longrightarrow>
   load_config env (args_config args) = (Inr (PDict cfg), t2) \<Longrightarrow>
   get_ai_engine env mods (PDict cfg) = (Inr engine, t3) \<Longrightarrow>
   generate_testcases env mods engine text = (Inr [], t4) \<Longrightarrow>
     fst (main_try env mods args) = Inl (SystemExit 1)"
  by (simp add: main_try_def io_bind_lift_Inr io_bind_return io_bind_print io_bind_Inl
      io_bind_Inr sys_exit_def io_raise_def)

lemma try_save:
  "extract_text_from_file env mods (args_input_file args) = Inr text \<Longrightarrow>
   str_strip env text \<noteq> [] \<Longrightarrow>
   load_config env (args_config args) = (Inr (PDict cfg), t2) \<Longrightarrow>
   get_ai_engine env mods (PDict cfg) = (Inr engine, t3) \<Longrightarrow>
   generate_testcases env mods engine text = (Inr testcases, t4) \<Longrightarrow>
   testcases \<noteq> [] \<Longrightarrow>
   save_testcases_to_excel env testcases (args_output args) = (r, t5) \<Longrightarrow>
     main_try env mods args =
       (case r of
          Inl e \<Rightarrow>
            (Inl e, extracted_line text # t2 @ t3 @ [using_line env cfg, generating_line] @ t4
                      @ [generated_line testcases, saving_line args] @ t5)
        | Inr u \<Rightarrow>
            (Inr (), extracted_line text # t2 @ t3 @ [using_line env cfg, generating_line] @ t4
                      @ [generated_line testcases, saving_line args] @ t5 @ [completed_line]))"
  by (cases r)
    (simp_all add: main_try_def io_bind_lift_Inr io_bind_return io_bind_print io_bind_Inl
      io_bind_Inr extracted_line_def using_line_def generating_line_def generated_line_def
      saving_line_def completed_line_def io_print_def)

lemma extract0: "extract_text_from_file env0 mods0 ''req.TXT'' = Inr ''Users log in.''"
  by (simp add: extract_text_from_file_def Let_def extract_text_from_txt_def open_and_read_def
      env0_def str_lower_def char_lower_def)

lemma strip0: "str_strip env0 ''Users log in.'' \<noteq> []"
  by (simp add: env0_def strip_ascii_def)

lemma load_config0: "load_config env0 ''config.yaml'' = (Inr (PDict config0), [])"
  by (simp add: load_config_def env0_def io_return_def)

lemma get_ai_engine0:
  "get_ai_engine env0 mods0 (PDict config0) = (Inr (OpenAIEngine engine0), [])"
  by (simp add: get_ai_engine_def config0_def dict_get_def str_lower_def char_lower_def
      openai_init_def mods0_def env0_def io_bind_lift_Inr io_bind_return io_return_def
      io_bind_Inr engine0_def)

lemma generate0:
  "generate_testcases env0 mods0 (OpenAIEngine engine0) ''Users log in.''
     = (Inr testcases0, [ChatCompletionsCreate request0])"
proof -
  have p: "openai_parse_response loads0 response0 = Inr testcases0"
    using openai_parse_response_outcome [of loads0 response0]
    by (simp add: openai_parse_try_expected expected_testcases0 outcome_Inr)
  have e: "json_loads env0 = loads0"
    "chat_completions_create env0 = (\<lambda>request. Inr (ChatResponse [Some response0]))"
    by (simp_all add: env0_def)
  show ?thesis
    by (simp add: generate_testcases_def openai_generate_testcases_def Let_def e p
        io_bind_effect_Inr io_lift_def io_except_Inr request0_def engine0_def)
qed

lemma save0:
  "save_testcases_to_excel env0 testcases0 ''testcases.xlsx''
     = (Inr (), [Mkdir ''testcases.xlsx'',
                 ExcelWrite ''testcases.xlsx'' (map (make_row env0) testcases0),
                 Print (check_mark @ '' Excel file saved successfully: testcases.xlsx'')])"
proof -
  have "testcases0 \<noteq> []" by (simp add: testcases0_def)
  moreover have "mkdir_parent env0 ''testcases.xlsx'' = Inr ()"
    "excel_write env0 ''testcases.xlsx'' rows = Inr ()"
    "path_str env0 ''testcases.xlsx'' = ''testcases.xlsx''" for rows
    by (simp_all add: env0_def)
  ultimately show ?thesis by (simp add: save_nonempty)
qed

lemma exists0: "path_exists env0 ''req.TXT''"
  by (simp add: env0_def)

text \<open>
  Claim C4. A run of \<^verbatim>\<open>main\<close> succeeds exactly when the input file exists and the five
  stages succeed in a chain in which each value is handed on as it is: the text returned by
  \<^verbatim>\<open>extract_text_from_file\<close> is the text given to \<^verbatim>\<open>generate_testcases\<close>, and the list
  returned by \<^verbatim>\<open>generate_testcases\<close> is the list given to \<^verbatim>\<open>save_testcases_to_excel\<close>. The
  events of the run are then the lines \<^verbatim>\<open>main\<close> prints and the events of the stages on those
  very values, in order.
\<close>

theorem main_pass_through:
  "main env mods args = (Inr (), tr) \<longleftrightarrow>
     path_exists env (args_input_file args) \<and>
     (\<exists>text cfg t2 engine t3 testcases t4 t5.
        extract_text_from_file env mods (args_input_file args) = Inr text
        \<and> str_strip env text \<noteq> []
        \<and> load_config env (args_config args) = (Inr (PDict cfg), t2)
        \<and> get_ai_engine env mods (PDict cfg) = (Inr engine, t3)
        \<and> generate_testcases env mods engine text = (Inr testcases, t4)
        \<and> testcases \<noteq> []
        \<and> save_testcases_to_excel env testcases (args_output args) = (Inr (), t5)
        \<and> tr = [reading_line args, extracted_line text] @ t2 @ t3
               @ [using_line env cfg, generating_line] @ t4
               @ [generated_line testcases, saving_line args] @ t5 @ [completed_line])"
  (is "?L \<longleftrightarrow> ?E \<and> ?R")
proof
  assume L: ?L
  have E: ?E
  proof (rule ccontr)
    assume "\<not> ?E"
    then have "fst (main env mods args) = Inl (SystemExit 1)" by (rule main_no_input)
    with L show False by simp
  qed
  from L E obtain t where T: "main_try env mods args = (Inr (), t)" and tr_eq: "tr = reading_line args # t"
    by (auto simp: main_of_try handled_def split: prod.splits sum.splits if_splits)
  obtain doc where X: "extract_text_from_file env mods (args_input_file args) = Inr doc"
    using T by (cases "extract_text_from_file env mods (args_input_file args)")
      (simp_all add: try_extract)
  have S: "str_strip env doc \<noteq> []"
    using T try_blank [OF X] by auto
  obtain r2 t2 where C0: "load_config env (args_config args) = (r2, t2)"
    by (cases "load_config env (args_config args)")
  obtain config where C1: "load_config env (args_config args) = (Inr config, t2)"
    using T C0 try_config [OF X S, of _ t2] by (cases r2) auto
  obtain r3 t3 where G0: "get_ai_engine env mods config = (r3, t3)"
    by (cases "get_ai_engine env mods config")
  obtain engine where G1: "get_ai_engine env mods config = (Inr engine, t3)"
    using T G0 try_engine [OF X S C1, of _ t3] by (cases r3) auto
  from get_ai_engine_dict [OF G1] obtain cfg where cfg: "config = PDict cfg" by blast
  note C = C1 [unfolded cfg] and G = G1 [unfolded cfg]
  obtain r4 t4 where A0: "generate_testcases env mods engine doc = (r4, t4)"
    by (cases "generate_testcases env mods engine doc")
  obtain testcases where A: "generate_testcases env mods engine doc = (Inr testcases, t4)"
    using T A0 try_generate [OF X S C G, of _ t4] by (cases r4) auto
  have N: "testcases \<noteq> []"
    using T try_no_testcases [OF X S C G, of t4] A by auto
  obtain r5 t5 where V0: "save_testcases_to_excel env testcases (args_output args) = (r5, t5)"
    by (cases "save_testcases_to_excel env testcases (args_output args)")
  from try_save [OF X S C G A N V0] T
  have V: "r5 = Inr ()" and t: "t = extracted_line doc # t2 @ t3
      @ [using_line env cfg, generating_line] @ t4
      @ [generated_line testcases, saving_line args] @ t5 @ [completed_line]"
    by (cases r5; simp)+
  from X S C G A N V0 V t tr_eq E show "?E \<and> ?R"
    by auto
next
  assume R: "?E \<and> ?R"
  then obtain doc cfg t2 engine t3 testcases t4 t5 where
    X: "extract_text_from_file env mods (args_input_file args) = Inr doc"
    and S: "str_strip env doc \<noteq> []"
    and C: "load_config env (args_config args) = (Inr (PDict cfg), t2)"
    and G: "get_ai_engine env mods (PDict cfg) = (Inr engine, t3)"
    and A: "generate_testcases env mods engine doc = (Inr testcases, t4)"
    and N: "testcases \<noteq> []"
    and V: "save_testcases_to_excel env testcases (args_output args) = (Inr (), t5)"
    and tr_eq: "tr = [reading_line args, extracted_line doc] @ t2 @ t3
               @ [using_line env cfg, generating_line] @ t4
               @ [generated_line testcases, saving_line args] @ t5 @ [completed_line]"
    by blast
  from R have E: ?E by simp
  from try_save [OF X S C G A N V] tr_eq show ?L
    by (simp add: main_of_try [OF E])
qed

theorem main_pass_through_witness:
  "main env0 mods0 args0 =
     (Inr (),
      [reading_line args0, extracted_line ''Users log in.'',
       using_line env0 config0, generating_line,
       ChatCompletionsCreate request0,
       generated_line testcases0, saving_line args0,
       Mkdir ''testcases.xlsx'',
       ExcelWrite ''testcases.xlsx'' (map (make_row env0) testcases0),
       Print (check_mark @ '' Excel file saved successfully: testcases.xlsx''),
       completed_line])"
proof -
  have a: "args_input_file args0 = ''req.TXT''" "args_config args0 = ''config.yaml''"
    "args_output args0 = ''testcases.xlsx''"
    by (simp_all add: args0_def)
  have n: "testcases0 \<noteq> []" by (simp add: testcases0_def)
  show ?thesis
    apply (rule iffD2 [OF main_pass_through])
    apply (simp only: a)
    apply (rule conjI)
     apply (rule exists0)
    apply (rule exI [of _ "''Users log in.''"])
    apply (rule exI [of _ config0])
    apply (rule exI [of _ "[]"])
    apply (rule exI [of _ "OpenAIEngine engine0"])
    apply (rule exI [of _ "[]"])
    apply (rule exI [of _ testcases0])
    apply (rule exI [of _ "[ChatCompletionsCreate request0]"])
    apply (rule exI [of _ "[Mkdir ''testcases.xlsx'',
       ExcelWrite ''testcases.xlsx'' (map (make_row env0) testcases0),
       Print (check_mark @ '' Excel file saved successfully: testcases.xlsx'')]"])
    apply (simp add: extract0 strip0 load_config0 get_ai_engine0 generate0 save0 n)
    done
qed

lemma load_config_found:
  "fs_open env p ''utf-8'' = Inr f \<Longrightarrow> yaml_safe_load env f = Inr v \<Longrightarrow>
     load_config env p = (Inr v, [])"
  by (simp add: load_config_def io_return_def)

lemma load_config_missing:
  "fs_open env p ''utf-8'' = Inl e \<Longrightarrow> isinstance e FileNotFoundError \<Longrightarrow>
     load_config env p =
       (Inl (SystemExit 1),
        [Print (cross_mark @ '' Configuration file '' @ [CHR 0x27] @ p @ [CHR 0x27]
           @ '' not found.'')])"
  by (simp add: load_config_def io_bind_print_exit)

lemma load_config_invalid:
  "fs_open env p ''utf-8'' = Inr f \<Longrightarrow> yaml_safe_load env f = Inl e \<Longrightarrow>
   isinstance e YAMLError \<Longrightarrow>
     load_config env p =
       (Inl (SystemExit 1),
        [Print (cross_mark @ '' Error parsing configuration file: '' @ exc_str e)])"
  by (cases e) (auto simp: load_config_def io_bind_print_exit)

lemma main_config_exit:
  "path_exists env (args_input_file args) \<Longrightarrow>
   extract_text_from_file env mods (args_input_file args) = Inr text \<Longrightarrow>
   str_strip env text \<noteq> [] \<Longrightarrow>
   load_config env (args_config args) = (Inl (SystemExit n), t2) \<Longrightarrow>
     main env mods args = (Inl (SystemExit n), [reading_line args, extracted_line text] @ t2)"
  by (simp add: main_of_try try_config handled_def)

text \<open>
  Claim C8. \<^verbatim>\<open>load_config\<close> returns what \<^verbatim>\<open>yaml.safe_load\<close> returns when the file opens and
  parses. When \<^verbatim>\<open>open\<close> raises \<^verbatim>\<open>FileNotFoundError\<close>, or \<^verbatim>\<open>yaml.safe_load\<close> raises
  \<^verbatim>\<open>YAMLError\<close>, it prints its message and exits with status 1. In \<^verbatim>\<open>main\<close> that exit is
  not caught by the handler of the \<^verbatim>\<open>try\<close> block in which \<^verbatim>\<open>load_config\<close> is called: the
  process exits with status 1 and the handler's line is not printed.
\<close>

theorem load_config_exits:
  "(fs_open env p ''utf-8'' = Inr f \<and> yaml_safe_load env f = Inr v \<longrightarrow>
      load_config env p = (Inr v, []))
   \<and> (fs_open env p ''utf-8'' = Inl e \<and> isinstance e FileNotFoundError \<longrightarrow>
      load_config env p =
        (Inl (SystemExit 1),
         [Print (cross_mark @ '' Configuration file '' @ [CHR 0x27] @ p @ [CHR 0x27]
            @ '' not found.'')]))
   \<and> (fs_open env p ''utf-8'' = Inr f \<and> yaml_safe_load env f = Inl e
        \<and> isinstance e YAMLError \<longrightarrow>
      load_config env p =
        (Inl (SystemExit 1),
         [Print (cross_mark @ '' Error parsing configuration file: '' @ exc_str e)]))
   \<and> (path_exists env (args_input_file args)
        \<and> extract_text_from_file env mods (args_input_file args) = Inr text
        \<and> str_strip env text \<noteq> []
        \<and> load_config env (args_config args) = (Inl (SystemExit 1), t2) \<longrightarrow>
      main env mods args = (Inl (SystemExit 1), [reading_line args, extracted_line text] @ t2)
      \<and> (\<forall>e'. \<not> caught_by_handler (main env mods args) e'))"
proof -
  have "\<not> caught_by_handler (Inl (SystemExit 1), [reading_line args, extracted_line text] @ t2) e'"
    if "load_config env (args_config args) = (Inl (SystemExit 1), t2)" for e'
  proof -
    have "t2 = [] \<or> (\<exists>s. t2 = [Print (cross_mark @ '' Configuration file '' @ s)])
        \<or> (\<exists>s. t2 = [Print (cross_mark @ '' Error parsing configuration file: '' @ s)])"
      using that
      by (auto simp: load_config_def io_return_def io_bind_print_exit io_raise_def Let_def
          split: sum.splits if_splits)
    then show ?thesis
      by (auto simp: caught_by_handler_def extracted_line_def cross_mark_def check_mark_def)
  qed
  then show ?thesis
    using load_config_found [of env p f v] load_config_missing [of env p e]
      load_config_invalid [of env p f e] main_config_exit [of env args mods "text" 1 t2]
    by auto
qed

lemma extract_no_config: "extract_text_from_file env_no_config mods0 ''req.TXT'' = Inr ''Users log in.''"
  by (simp add: extract_text_from_file_def Let_def extract_text_from_txt_def open_and_read_def
      env_no_config_def env0_def str_lower_def char_lower_def)

lemma world_no_config:
  "path_exists env_no_config ''req.TXT''"
  "str_strip env_no_config ''Users log in.'' \<noteq> []"
  "fs_open env_no_config ''config.yaml'' ''utf-8''
     = Inl (Exc FileNotFoundError ''[Errno 2] No such file or directory: config.yaml'')"
  by (simp_all add: env_no_config_def env0_def strip_ascii_def)

lemma load_config_no_config:
  "load_config env_no_config ''config.yaml'' = (Inl (SystemExit 1), [config_not_found_line])"
  by (simp add: load_config_missing [OF world_no_config(3)] config_not_found_line_def)

lemma args0_fields:
  "args_input_file args0 = ''req.TXT''" "args_config args0 = ''config.yaml''"
  "args_output args0 = ''testcases.xlsx''"
  by (simp_all add: args0_def)

theorem load_config_exits_witness:
  "load_config env0 ''config.yaml'' = (Inr (PDict config0), [])
   \<and> load_config env_no_config ''config.yaml'' = (Inl (SystemExit 1), [config_not_found_line])
   \<and> load_config env_bad_yaml ''config.yaml''
       = (Inl (SystemExit 1),
          [Print (cross_mark
             @ '' Error parsing configuration file: mapping values are not allowed here'')])
   \<and> main env_no_config mods0 args0
       = (Inl (SystemExit 1),
          [reading_line args0, extracted_line ''Users log in.'', config_not_found_line])"
proof -
  note a = load_config_exits [of env0 "''config.yaml''" "File ''config.yaml'' ''utf-8''"
      "PDict config0" "Exc YAMLError []" args0 mods0 "[]" "[]"]
  note b = load_config_exits [of env_no_config "''config.yaml''" "File ''config.yaml'' ''utf-8''"
      "PDict config0" "Exc FileNotFoundError ''[Errno 2] No such file or directory: config.yaml''"
      args0 mods0 "''Users log in.''" "[config_not_found_line]"]
  note c = load_config_exits [of env_bad_yaml "''config.yaml''" "File ''config.yaml'' ''utf-8''"
      "PDict config0" "Exc YAMLError ''mapping values are not allowed here''" args0 mods0 "[]" "[]"]
  have w0: "fs_open env0 ''config.yaml'' ''utf-8'' = Inr (File ''config.yaml'' ''utf-8'')"
    "yaml_safe_load env0 (File ''config.yaml'' ''utf-8'') = Inr (PDict config0)"
    by (simp_all add: env0_def)
  have wc: "fs_open env_bad_yaml ''config.yaml'' ''utf-8'' = Inr (File ''config.yaml'' ''utf-8'')"
    "yaml_safe_load env_bad_yaml (File ''config.yaml'' ''utf-8'')
       = Inl (Exc YAMLError ''mapping values are not allowed here'')"
    by (simp_all add: env_bad_yaml_def env0_def)
  from a w0 have a1: "load_config env0 ''config.yaml'' = (Inr (PDict config0), [])"
    by simp
  from b world_no_config
  have b1: "load_config env_no_config ''config.yaml'' = (Inl (SystemExit 1), [config_not_found_line])"
    by (simp add: config_not_found_line_def)
  from b b1 world_no_config extract_no_config
  have b2: "main env_no_config mods0 args0
       = (Inl (SystemExit 1),
          [reading_line args0, extracted_line ''Users log in.'', config_not_found_line])"
    by (simp add: args0_fields)
  from c wc have c1: "load_config env_bad_yaml ''config.yaml''
       = (Inl (SystemExit 1),
          [Print (cross_mark
             @ '' Error parsing configuration file: mapping values are not allowed here'')])"
    by simp
  from a1 b1 b2 c1 show ?thesis by simp
qed

lemma handled_caught: "isinstance e Exception \<Longrightarrow> caught_by_handler (handled e t) e"
  by (simp add: handled_def caught_by_handler_def)

lemma handled_passed: "\<not> isinstance e Exception \<Longrightarrow> handled e t = (Inl e, t)"
  by (simp add: handled_def)

text \<open>
  Claim C2, as amended. An exception that leaves one of the five stages of the \<^verbatim>\<open>try\<close>
  block of \<^verbatim>\<open>main\<close> (text extraction, config loading, engine construction, test-case
  generation, Excel export) after the earlier stages have returned ends the run at that
  stage: \<^verbatim>\<open>main\<close> runs no later stage and runs no stage again. If it is an instance of
  \<^verbatim>\<open>Exception\<close>, the one handler catches it, prints \<^verbatim>\<open>Error during processing:\<close> with its
  message as the last line, and exits with status 1. If it is not (the \<open>SystemExit\<close> that
  \<^verbatim>\<open>sys.exit\<close> raises inside \<^verbatim>\<open>load_config\<close> and \<^verbatim>\<open>get_ai_engine\<close>), the handler does
  not catch it and it leaves \<^verbatim>\<open>main\<close> as it is.
\<close>

theorem main_reports_exceptions:
  "path_exists env (args_input_file args) \<longrightarrow>
     (extract_text_from_file env mods (args_input_file args) = Inl e \<longrightarrow>
        main env mods args = handled e [reading_line args])
     \<and> (extract_text_from_file env mods (args_input_file args) = Inr text
          \<and> str_strip env text \<noteq> []
          \<and> load_config env (args_config args) = (Inl e, t2) \<longrightarrow>
        main env mods args = handled e ([reading_line args, extracted_line text] @ t2))
     \<and> (extract_text_from_file env mods (args_input_file args) = Inr text
          \<and> str_strip env text \<noteq> []
          \<and> load_config env (args_config args) = (Inr config, t2)
          \<and> get_ai_engine env mods config = (Inl e, t3) \<longrightarrow>
        main env mods args = handled e ([reading_line args, extracted_line text] @ t2 @ t3))
     \<and> (extract_text_from_file env mods (args_input_file args) = Inr text
          \<and> str_strip env text \<noteq> []
          \<and> load_config env (args_config args) = (Inr (PDict cfg), t2)
          \<and> get_ai_engine env mods (PDict cfg) = (Inr engine, t3)
          \<and> generate_testcases env mods engine text = (Inl e, t4) \<longrightarrow>
        main env mods args =
          handled e ([reading_line args, extracted_line text] @ t2 @ t3
            @ [using_line env cfg, generating_line] @ t4))
     \<and> (extract_text_from_file env mods (args_input_file args) = Inr text
          \<and> str_strip env text \<noteq> []
          \<and> load_config env (args_config args) = (Inr (PDict cfg), t2)
          \<and> get_ai_engine env mods (PDict cfg) = (Inr engine, t3)
          \<and> generate_testcases env mods engine text = (Inr testcases, t4)
          \<and> testcases \<noteq> []
          \<and> save_testcases_to_excel env testcases (args_output args) = (Inl e, t5) \<longrightarrow>
        main env mods args =
          handled e ([reading_line args, extracted_line text] @ t2 @ t3
            @ [using_line env cfg, generating_line] @ t4
            @ [generated_line testcases, saving_line args] @ t5))
     \<and> (isinstance e Exception \<longrightarrow> caught_by_handler (handled e t) e)
     \<and> (\<not> isinstance e Exception \<longrightarrow> handled e t = (Inl e, t))"
proof (intro impI conjI)
  assume E: "path_exists env (args_input_file args)"
  show "main env mods args = handled e [reading_line args]"
    if "extract_text_from_file env mods (args_input_file args) = Inl e"
    using that by (simp add: main_of_try [OF E] try_extract)
  show "main env mods args = handled e ([reading_line args, extracted_line text] @ t2)"
    if "extract_text_from_file env mods (args_input_file args) = Inr text
          \<and> str_strip env text \<noteq> []
          \<and> load_config env (args_config args) = (Inl e, t2)"
    using that by (simp add: main_of_try [OF E] try_config)
  show "main env mods args = handled e ([reading_line args, extracted_line text] @ t2 @ t3)"
    if "extract_text_from_file env mods (args_input_file args) = Inr text
          \<and> str_strip env text \<noteq> []
          \<and> load_config env (args_config args) = (Inr config, t2)
          \<and> get_ai_engine env mods config = (Inl e, t3)"
    using that by (simp add: main_of_try [OF E] try_engine)
  show "main env mods args =
          handled e ([reading_line args, extracted_line text] @ t2 @ t3
            @ [using_line env cfg, generating_line] @ t4)"
    if "extract_text_from_file env mods (args_input_file args) = Inr text
          \<and> str_strip env text \<noteq> []
          \<and> load_config env (args_config args) = (Inr (PDict cfg), t2)
          \<and> get_ai_engine env mods (PDict cfg) = (Inr engine, t3)
          \<and> generate_testcases env mods engine text = (Inl e, t4)"
    using that by (simp add: main_of_try [OF E] try_generate)
  show "main env mods args =
          handled e ([reading_line args, extracted_line text] @ t2 @ t3
            @ [using_line env cfg, generating_line] @ t4
            @ [generated_line testcases, saving_line args] @ t5)"
    if h: "extract_text_from_file env mods (args_input_file args) = Inr text
          \<and> str_strip env text \<noteq> []
          \<and> load_config env (args_config args) = (Inr (PDict cfg), t2)
          \<and> get_ai_engine env mods (PDict cfg) = (Inr engine, t3)
          \<and> generate_testcases env mods engine text = (Inr testcases, t4)
          \<and> testcases \<noteq> []
          \<and> save_testcases_to_excel env testcases (args_output args) = (Inl e, t5)"
  proof -
    from h have "main_try env mods args =
        (Inl e, extracted_line text # t2 @ t3 @ [using_line env cfg, generating_line] @ t4
                      @ [generated_line testcases, saving_line args] @ t5)"
      using try_save [of env mods args "text" cfg t2 engine t3 testcases t4 "Inl e" t5] by simp
    then show ?thesis by (simp add: main_of_try [OF E])
  qed
  show "caught_by_handler (handled e t) e" if "isinstance e Exception"
    using that by (rule handled_caught)
  show "handled e t = (Inl e, t)" if "\<not> isinstance e Exception"
    using that by (rule handled_passed)
qed

lemma world_api_down:
  "path_exists env_api_down ''req.TXT''"
  "extract_text_from_file env_api_down mods0 ''req.TXT'' = Inr ''Users log in.''"
  "str_strip env_api_down ''Users log in.'' \<noteq> []"
  "load_config env_api_down ''config.yaml'' = (Inr (PDict config0), [])"
  by (simp_all add: extract_text_from_file_def Let_def extract_text_from_txt_def open_and_read_def
      env_api_down_def env0_def str_lower_def char_lower_def strip_ascii_def load_config_def
      io_return_def)

lemma get_ai_engine_api_down:
  "get_ai_engine env_api_down mods0 (PDict config0) = (Inr (OpenAIEngine engine0), [])"
  by (simp add: get_ai_engine_def config0_def dict_get_def str_lower_def char_lower_def
      openai_init_def mods0_def env_api_down_def env0_def io_bind_lift_Inr io_bind_return
      io_return_def io_bind_Inr engine0_def)

lemma generate_api_down:
  "generate_testcases env_api_down mods0 (OpenAIEngine engine0) ''Users log in.''
     = (Inl (Exc Exception ''Error calling OpenAI API: Connection error.''),
        [ChatCompletionsCreate request0])"
  by (simp add: generate_testcases_def openai_generate_testcases_def Let_def env_api_down_def
      env0_def io_bind_effect_Inl io_except_Inl io_raise_def request0_def engine0_def)

lemma main_no_config:
  "main env_no_config mods0 args0
     = (Inl (SystemExit 1),
        [reading_line args0, extracted_line ''Users log in.'', config_not_found_line])"
  using main_config_exit [of env_no_config args0 mods0 "''Users log in.''" 1
      "[config_not_found_line]"]
  by (simp add: args0_fields world_no_config extract_no_config load_config_no_config)

theorem main_reports_exceptions_witness:
  "main env_api_down mods0 args0
     = (Inl (SystemExit 1),
        [reading_line args0, extracted_line ''Users log in.'',
         using_line env_api_down config0, generating_line,
         ChatCompletionsCreate request0,
         Print (cross_mark
           @ '' Error during processing: Error calling OpenAI API: Connection error.'')])
   \<and> caught_by_handler (main env_api_down mods0 args0)
        (Exc Exception ''Error calling OpenAI API: Connection error.'')
   \<and> main env_no_config mods0 args0
     = (Inl (SystemExit 1),
        [reading_line args0, extracted_line ''Users log in.'', config_not_found_line])"
proof -
  note a = main_reports_exceptions [of env_api_down args0 mods0
      "Exc Exception ''Error calling OpenAI API: Connection error.''" "''Users log in.''"
      "[]" "PDict config0" "[]" config0 "OpenAIEngine engine0" "[ChatCompletionsCreate request0]"
      "[]" "[]"
      "[reading_line args0, extracted_line ''Users log in.'',
         using_line env_api_down config0, generating_line,
         ChatCompletionsCreate request0]"]
  note b = main_reports_exceptions [of env_no_config args0 mods0
      "SystemExit 1" "''Users log in.''"
      "[config_not_found_line]" "PDict config0" "[]" config0 "OpenAIEngine engine0" "[]"
      "[]" "[]" "[]"]
  from a have a1: "main env_api_down mods0 args0
      = handled (Exc Exception ''Error calling OpenAI API: Connection error.'')
          [reading_line args0, extracted_line ''Users log in.'',
           using_line env_api_down config0, generating_line,
           ChatCompletionsCreate request0]"
    by (simp add: args0_fields world_api_down get_ai_engine_api_down generate_api_down)
  from a have a2: "caught_by_handler
      (handled (Exc Exception ''Error calling OpenAI API: Connection error.'')
          [reading_line args0, extracted_line ''Users log in.'',
           using_line env_api_down config0, generating_line,
           ChatCompletionsCreate request0])
      (Exc Exception ''Error calling OpenAI API: Connection error.'')"
    by (simp add: args0_fields world_api_down)
  from b have b1: "main env_no_config mods0 args0
      = handled (SystemExit 1)
          [reading_line args0, extracted_line ''Users log in.'', config_not_found_line]"
    by (simp add: args0_fields world_no_config extract_no_config load_config_no_config)
  from a1 a2 b1 show ?thesis
    by (simp add: handled_def)
qed

text \<open>
  Claim C2 as it was stated fails where the configuration file is missing: \<^verbatim>\<open>load_config\<close>
  raises \<open>SystemExit\<close> inside the \<^verbatim>\<open>try\<close> block, the handler does not catch it, and the last
  line printed is the one of \<^verbatim>\<open>load_config\<close>.
\<close>

theorem broad_handler_counterexample:
  "fst (load_config env_no_config (args_config args0)) = Inl (SystemExit 1)
   \<and> snd (main env_no_config mods0 args0)
       = [reading_line args0, extracted_line ''Users log in.'', config_not_found_line]
   \<and> \<not> caught_by_handler (main env_no_config mods0 args0) (SystemExit 1)"
  by (simp add: main_no_config args0_fields load_config_no_config caught_by_handler_def
      config_not_found_line_def cross_mark_def)

section \<open>The command line\<close>

lemma find_option_parser:
  "find_option parser tok =
     (if tok = ''-o'' \<or> tok = ''--output'' then Some ''output''
      else if tok = ''-c'' \<or> tok = ''--config'' then Some ''config''
      else None)"
  by (simp add: parser_def add_argument_def ArgumentParser_def option_dest_def is_long_option_def)

lemma positional_dests_parser: "positional_dests parser = [''input_file'']"
  by (simp add: parser_def add_argument_def ArgumentParser_def)

lemma initial_namespace_parser:
  "initial_namespace parser =
     [(''input_file'', PNone), (''output'', PStr ''testcases.xlsx''),
      (''config'', PStr ''config.yaml'')]"
  by (simp add: initial_namespace_def parser_def add_argument_def ArgumentParser_def
      option_dest_def is_long_option_def)

lemma find_option_plain: "\<not> option_like tok \<Longrightarrow> find_option parser tok = None"
  by (auto simp: find_option_parser option_like_def)

lemma option_value_Cons: "option_value d (v # vs) = option_value v vs"
  by (simp add: option_value_def)

lemma render_Cons: "render (item # items) = render_item item @ render items"
  by (simp add: render_def)

lemma render_Nil: "render [] = []"
  by (simp add: render_def)

lemma consume_output:
  "opt = ''-o'' \<or> opt = ''--output'' \<Longrightarrow> \<not> option_like v \<Longrightarrow>
     consume_args parser pending
       [(''input_file'', i), (''output'', PStr out), (''config'', PStr cfg)] (opt # v # rest) =
     consume_args parser pending
       [(''input_file'', i), (''output'', PStr v), (''config'', PStr cfg)] rest"
  by (simp add: find_option_parser)

lemma consume_config:
  "opt = ''-c'' \<or> opt = ''--config'' \<Longrightarrow> \<not> option_like v \<Longrightarrow>
     consume_args parser pending
       [(''input_file'', i), (''output'', PStr out), (''config'', PStr cfg)] (opt # v # rest) =
     consume_args parser pending
       [(''input_file'', i), (''output'', PStr out), (''config'', PStr v)] rest"
  by (auto simp: find_option_parser)

lemma consume_extra:
  "\<not> option_like f \<Longrightarrow> consume_args parser [] ns (f # rest) = Inl (SystemExit 2)"
  by (simp add: find_option_plain)

lemma consume_positional:
  "\<not> option_like f \<Longrightarrow>
     consume_args parser [''input_file'']
       [(''input_file'', i), (''output'', PStr out), (''config'', PStr cfg)] (f # rest) =
     consume_args parser []
       [(''input_file'', PStr f), (''output'', PStr out), (''config'', PStr cfg)] rest"
  by (simp add: find_option_plain)

lemma values_of_output:
  "opt = ''-o'' \<or> opt = ''--output'' \<Longrightarrow>
     values_of ''-o'' ''--output'' (Flagged opt v # items) = v # values_of ''-o'' ''--output'' items
     \<and> values_of ''-c'' ''--config'' (Flagged opt v # items) = values_of ''-c'' ''--config'' items"
  by auto

lemma values_of_config:
  "opt = ''-c'' \<or> opt = ''--config'' \<Longrightarrow>
     values_of ''-c'' ''--config'' (Flagged opt v # items) = v # values_of ''-c'' ''--config'' items
     \<and> values_of ''-o'' ''--output'' (Flagged opt v # items) = values_of ''-o'' ''--output'' items"
  by auto

lemma consume_filled:
  "list_all item_ok items \<Longrightarrow>
     consume_args parser []
       [(''input_file'', i), (''output'', PStr out), (''config'', PStr cfg)] (render items) =
       (if plain_tokens items = []
        then Inr [(''input_file'', i),
                  (''output'', PStr (option_value out (values_of ''-o'' ''--output'' items))),
                  (''config'', PStr (option_value cfg (values_of ''-c'' ''--config'' items)))]
        else Inl (SystemExit 2))"
proof (induction items arbitrary: out cfg)
  case Nil
  then show ?case by (simp add: render_Nil option_value_def)
next
  case (Cons item items)
  show ?case
  proof (cases item)
    case (Plain f)
    with Cons.prems have f: "\<not> option_like f" by simp
    have r: "render (Plain f # items) = f # render items"
      by (simp add: render_Cons)
    show ?thesis
      by (simp add: Plain r consume_extra [OF f] del: consume_args.simps)
  next
    case (Flagged opt v)
    with Cons.prems have ok: "list_all item_ok items" and v: "\<not> option_like v"
      and opt: "(opt = ''-o'' \<or> opt = ''--output'') \<or> (opt = ''-c'' \<or> opt = ''--config'')"
      by auto
    have r: "render (Flagged opt v # items) = opt # v # render items"
      by (simp add: render_Cons)
    have p: "plain_tokens (Flagged opt v # items) = plain_tokens items"
      by simp
    from opt show ?thesis
    proof
      assume o: "opt = ''-o'' \<or> opt = ''--output''"
      show ?thesis
        by (simp only: Flagged r p consume_output [OF o v] Cons.IH [OF ok] values_of_output [OF o]
            option_value_Cons)
    next
      assume o: "opt = ''-c'' \<or> opt = ''--config''"
      show ?thesis
        by (simp only: Flagged r p consume_config [OF o v] Cons.IH [OF ok] values_of_config [OF o]
            option_value_Cons)
    qed
  qed
qed

lemma consume_pending:
  "list_all item_ok items \<Longrightarrow>
     consume_args parser [''input_file'']
       [(''input_file'', PNone), (''output'', PStr out), (''config'', PStr cfg)] (render items) =
       (case plain_tokens items of
          [f] \<Rightarrow>
            Inr [(''input_file'', PStr f),
                 (''output'', PStr (option_value out (values_of ''-o'' ''--output'' items))),
                 (''config'', PStr (option_value cfg (values_of ''-c'' ''--config'' items)))]
        | _ \<Rightarrow> Inl (SystemExit 2))"
proof (induction items arbitrary: out cfg)
  case Nil
  then show ?case by (simp add: render_Nil)
next
  case (Cons item items)
  show ?case
  proof (cases item)
    case (Plain f)
    with Cons.prems have ok: "list_all item_ok items" and f: "\<not> option_like f"
      by auto
    have r: "render (Plain f # items) = f # render items"
      by (simp add: render_Cons)
    show ?thesis
      by (simp add: Plain r consume_positional [OF f] consume_filled [OF ok]
          del: consume_args.simps split: list.splits)
  next
    case (Flagged opt v)
    with Cons.prems have ok: "list_all item_ok items" and v: "\<not> option_like v"
      and opt: "(opt = ''-o'' \<or> opt = ''--output'') \<or> (opt = ''-c'' \<or> opt = ''--config'')"
      by auto
    have r: "render (Flagged opt v # items) = opt # v # render items"
      by (simp add: render_Cons)
    have p: "plain_tokens (Flagged opt v # items) = plain_tokens items"
      by simp
    from opt show ?thesis
    proof
      assume o: "opt = ''-o'' \<or> opt = ''--output''"
      show ?thesis
        by (simp only: Flagged r p consume_output [OF o v] Cons.IH [OF ok] values_of_output [OF o]
            option_value_Cons)
    next
      assume o: "opt = ''-c'' \<or> opt = ''--config''"
      show ?thesis
        by (simp only: Flagged r p consume_config [OF o v] Cons.IH [OF ok] values_of_config [OF o]
            option_value_Cons)
    qed
  qed
qed

lemma in_fragment_render: "list_all item_ok items \<Longrightarrow> in_fragment parser (render items)"
proof (induction items)
  case Nil
  then show ?case by (simp add: in_fragment_def render_Nil)
next
  case (Cons item items)
  then show ?case
    by (cases item) (auto simp: in_fragment_def render_Cons find_option_parser)
qed

text \<open>
  Claim C5. The parser \<^verbatim>\<open>main\<close> declares has one positional, \<^verbatim>\<open>input_file\<close>, and two
  optionals, \<^verbatim>\<open>-o\<close>/\<^verbatim>\<open>--output\<close> with default \<^verbatim>\<open>testcases.xlsx\<close> and
  \<^verbatim>\<open>-c\<close>/\<^verbatim>\<open>--config\<close> with default \<^verbatim>\<open>config.yaml\<close>. A command line made of plain tokens
  and of these option strings, each followed by its value, is accepted exactly when it has
  one plain token, which becomes \<^verbatim>\<open>input_file\<close>; \<^verbatim>\<open>output\<close> and \<^verbatim>\<open>config\<close> are the last
  value given for them, or their defaults when the option is omitted. With no plain token
  or with more than one the parser exits with status 2.
\<close>

theorem cli_arguments:
  "(list_all item_ok items \<longrightarrow> parse_args parser (render items) = Some (expected_args items))
   \<and> positional_dests parser = [''input_file'']
   \<and> map_of (initial_namespace parser) ''output'' = Some (PStr ''testcases.xlsx'')
   \<and> map_of (initial_namespace parser) ''config'' = Some (PStr ''config.yaml'')"
  by (simp add: parse_args_def in_fragment_render positional_dests_parser
      initial_namespace_parser consume_pending expected_args_def)

theorem cli_arguments_witness:
  "parse_args parser [''req.pdf'']
     = Some (Inr [(''input_file'', PStr ''req.pdf''), (''output'', PStr ''testcases.xlsx''),
                  (''config'', PStr ''config.yaml'')])
   \<and> parse_args parser [''-o'', ''out.xlsx'', ''req.pdf'', ''--config'', ''my.yaml'']
     = Some (Inr [(''input_file'', PStr ''req.pdf''), (''output'', PStr ''out.xlsx''),
                  (''config'', PStr ''my.yaml'')])
   \<and> parse_args parser [] = Some (Inl (SystemExit 2))
   \<and> parse_args parser [''-c'', ''my.yaml''] = Some (Inl (SystemExit 2))
   \<and> parse_args parser [''a.txt'', ''b.txt''] = Some (Inl (SystemExit 2))"
  using cli_arguments [of "[Plain ''req.pdf'']"]
    cli_arguments [of "[Flagged ''-o'' ''out.xlsx'', Plain ''req.pdf'',
      Flagged ''--config'' ''my.yaml'']"]
    cli_arguments [of "[]"]
    cli_arguments [of "[Flagged ''-c'' ''my.yaml'']"]
    cli_arguments [of "[Plain ''a.txt'', Plain ''b.txt'']"]
  by (simp add: render_def expected_args_def option_value_def option_like_def)

end
